theory Spec2Isabelle
  imports Complex_Main "HOL-Library.Word"
begin

section \<open>Good Ways point of sale: strings and numbers\<close>

text \<open>
  A JavaScript string is a sequence of UTF-16 code units, and \<open>.length\<close> counts code
  units, so a string is a list of 16-bit words. Literals of the source are written with
  \<open>str\<close>. Byte arrays (\<open>Uint8Array\<close>) are lists of 8-bit words.

  Amounts of money are whole numbers of rupiah; they are modelled as \<open>int\<close>, the
  range in which a JavaScript number is an exact integer. \<open>NaN\<close> and \<open>null\<close>
  are \<open>None\<close> of an option type where the source can produce them.
\<close>

type_synonym code_unit = "16 word"
type_synonym jsstring = "code_unit list"
type_synonym byte = "8 word"

definition str :: "string \<Rightarrow> jsstring" where
  "str s = map (\<lambda>c. of_nat (of_char c)) s"

text \<open>\<open>String.prototype.substring(start, end)\<close>: both indices are clamped to
  \<open>[0, length]\<close> and swapped when \<open>start > end\<close>.\<close>

definition substring :: "'a list \<Rightarrow> int \<Rightarrow> int \<Rightarrow> 'a list" where
  "substring s start end' =
     (let len = int (length s);
          finalStart = min (max start 0) len;
          finalEnd = min (max end' 0) len;
          from = min finalStart finalEnd;
          to = max finalStart finalEnd
      in take (nat (to - from)) (drop (nat from) s))"

text \<open>\<open>String.prototype.repeat(count)\<close>, for the non-negative counts the source
  calls it with.\<close>

definition repeat :: "jsstring \<Rightarrow> int \<Rightarrow> jsstring" where
  "repeat s count = concat (replicate (nat count) s)"

section \<open>PrinterService: fixed-width receipt lines\<close>

definition LINE_SINGLE :: jsstring where
  "LINE_SINGLE = str ''--------------------------------''"

definition LINE_DOUBLE :: jsstring where
  "LINE_DOUBLE = str ''================================''"

definition LINE_DASHED :: jsstring where
  "LINE_DASHED = str ''- - - - - - - - - - - - - - - - ''"

text \<open>\<open>justifyLine(left, right, maxLength = 32)\<close>.\<close>

definition justifyLine :: "jsstring \<Rightarrow> jsstring \<Rightarrow> int \<Rightarrow> jsstring" where
  "justifyLine left right maxLength =
     (let totalLength = int (length left) + int (length right) in
      if totalLength \<ge> maxLength
      then substring left 0 (maxLength - int (length right)) @ right
      else let spaces = repeat (str '' '') (maxLength - totalLength)
           in left @ spaces @ right)"

text \<open>The call with the third argument left out takes the default width.\<close>

definition justifyLine_default :: "jsstring \<Rightarrow> jsstring \<Rightarrow> jsstring" where
  "justifyLine_default left right = justifyLine left right 32"

section \<open>PrinterService: sending bytes to the printer\<close>

text \<open>
  \<open>sendData\<close> throws when no characteristic is connected; a write to the
  characteristic may be rejected, which ends the loop with that error.
\<close>

datatype print_error = NotConnected | WriteFailed

text \<open>
  \<open>new TextEncoder().encode(data)\<close> of the platform: the string is read as UTF-16
  (a surrogate without its partner becomes U+FFFD) and every scalar value is written in
  UTF-8.
\<close>

definition isHighSurrogate :: "code_unit \<Rightarrow> bool" where
  "isHighSurrogate c = (0xD800 \<le> c \<and> c \<le> 0xDBFF)"
definition isLowSurrogate :: "code_unit \<Rightarrow> bool" where
  "isLowSurrogate c = (0xDC00 \<le> c \<and> c \<le> 0xDFFF)"

fun scalar_values :: "jsstring \<Rightarrow> nat list" where
  "scalar_values [] = []"
| "scalar_values (c # cs) =
     (if isHighSurrogate c then
        (case cs of
           d # ds \<Rightarrow> if isLowSurrogate d
                    then (0x10000 + (unat c - 0xD800) * 0x400 + (unat d - 0xDC00)) # scalar_values ds
                    else 0xFFFD # scalar_values cs
         | [] \<Rightarrow> [0xFFFD])
      else if isLowSurrogate c then 0xFFFD # scalar_values cs
      else unat c # scalar_values cs)"

definition utf8_bytes :: "nat \<Rightarrow> byte list" where
  "utf8_bytes cp =
     (if cp < 0x80 then [of_nat cp]
      else if cp < 0x800 then [of_nat (0xC0 + cp div 0x40), of_nat (0x80 + cp mod 0x40)]
      else if cp < 0x10000 then
        [of_nat (0xE0 + cp div 0x1000), of_nat (0x80 + cp div 0x40 mod 0x40),
         of_nat (0x80 + cp mod 0x40)]
      else
        [of_nat (0xF0 + cp div 0x40000), of_nat (0x80 + cp div 0x1000 mod 0x40),
         of_nat (0x80 + cp div 0x40 mod 0x40), of_nat (0x80 + cp mod 0x40)])"

definition TextEncoder_encode :: "jsstring \<Rightarrow> byte list" where
  "TextEncoder_encode data = concat (map utf8_bytes (scalar_values data))"

text \<open>\<open>Uint8Array.prototype.slice(start, end)\<close> for indices that are not negative;
  the end is clamped to the length.\<close>

definition slice :: "'a list \<Rightarrow> nat \<Rightarrow> nat \<Rightarrow> 'a list" where
  "slice xs start end' = take (end' - start) (drop start xs)"

definition chunkSize :: nat where "chunkSize = 20"

text \<open>
  The \<open>for\<close> loop of \<open>sendData\<close>, with the characteristic's \<open>writeValue\<close> as a
  parameter: it takes the state of the device and a chunk, and returns the new state or
  the error it rejected the write with. The pause between two writes is not modelled.
\<close>

function sendData_loop ::
  "('c \<Rightarrow> byte list \<Rightarrow> print_error + 'c) \<Rightarrow> byte list \<Rightarrow> nat \<Rightarrow> 'c \<Rightarrow> print_error + 'c" where
  "sendData_loop writeValue encoded i ch =
     (if i < length encoded then
        (let chunk = slice encoded i (i + chunkSize) in
         case writeValue ch chunk of
           Inl e \<Rightarrow> Inl e
         | Inr ch' \<Rightarrow> sendData_loop writeValue encoded (i + chunkSize) ch')
      else Inr ch)"
  by pat_completeness auto
termination
  by (relation "measure (\<lambda>(w, encoded, i, ch). length encoded - i)") (auto simp: chunkSize_def)

declare sendData_loop.simps [simp del]

definition sendData ::
  "('c \<Rightarrow> byte list \<Rightarrow> print_error + 'c) \<Rightarrow> 'c option \<Rightarrow> jsstring \<Rightarrow> print_error + 'c" where
  "sendData writeValue characteristic data =
     (case characteristic of
        None \<Rightarrow> Inl NotConnected
      | Some ch \<Rightarrow>
          let encoded = TextEncoder_encode data
          in sendData_loop writeValue encoded 0 ch)"

text \<open>A device that accepts every write and keeps the chunks it received, in order.\<close>

definition record_write :: "byte list list \<Rightarrow> byte list \<Rightarrow> print_error + byte list list" where
  "record_write received chunk = Inr (received @ [chunk])"

text \<open>
  The description of the transmission: the payload cut into consecutive pieces of \<open>n\<close>
  bytes, the last one shorter when the length is not a multiple of \<open>n\<close>, and the pieces
  written one after the other until a write is rejected.
\<close>

function chunks_of :: "nat \<Rightarrow> 'a list \<Rightarrow> 'a list list" where
  "chunks_of n xs = (if n = 0 \<or> xs = [] then [] else take n xs # chunks_of n (drop n xs))"
  by pat_completeness auto
termination
  by (relation "measure (\<lambda>(n, xs). length xs)") auto

declare chunks_of.simps [simp del]

fun write_each ::
  "('c \<Rightarrow> byte list \<Rightarrow> print_error + 'c) \<Rightarrow> 'c \<Rightarrow> byte list list \<Rightarrow> print_error + 'c" where
  "write_each writeValue ch [] = Inr ch"
| "write_each writeValue ch (c # cs) =
     (case writeValue ch c of Inl e \<Rightarrow> Inl e | Inr ch' \<Rightarrow> write_each writeValue ch' cs)"

text \<open>A payload of 26 bytes: 24 ASCII characters and U+00E9.\<close>

definition sample_receipt :: jsstring where
  "sample_receipt = str ''GOOD WAYS - Sistem Kasir'' @ [0xE9]"

section \<open>Cashier: products, add-ons and the cart\<close>

text \<open>
  The objects of \<open>Cashier\<close>. An add-on is \<open>{ name, price }\<close>; the add-ons offered in
  the product dialog carry a \<open>selected\<close> flag besides. Optional booleans
  (\<open>has_variants?\<close>, \<open>has_addons?\<close>) are options, \<open>undefined\<close> being \<open>None\<close>. The
  field \<open>id\<close> of a product is written \<open>id'\<close>.
\<close>

record AddOn =
  name :: jsstring
  price :: int

record ModalAddOn = AddOn +
  selected :: bool

record Product = AddOn +
  id' :: jsstring
  category :: jsstring
  recipe :: "jsstring option"
  image_url :: jsstring
  has_variants :: "bool option"
  has_addons :: "bool option"
  created_at :: jsstring

text \<open>What a cart item and a stored transaction item have in common.\<close>

record OrderLine =
  quantity :: int
  variant :: "jsstring option"
  addOns :: "AddOn list"
  totalPrice :: int

record CartItem = OrderLine +
  product :: Product

text \<open>
  A JavaScript array can have empty slots: an assignment beyond its end leaves the
  indices in between empty. \<open>reduce\<close>, \<open>map\<close> and \<open>filter\<close> pass over an empty slot,
  while spreading the array (\<open>[...cart]\<close>) reads it as \<open>undefined\<close>, a value of the
  new array. A slot is therefore empty, \<open>undefined\<close> or \<open>null\<close>, or an item; reading
  a property of \<open>undefined\<close> or \<open>null\<close> throws a \<open>TypeError\<close>.
\<close>

datatype 'a slot = Hole | Nullish | Item 'a

datatype js_error = TypeError | SyntaxError

type_synonym Cart = "CartItem slot list"

text \<open>The state of \<open>Cashier\<close> that the handlers of the cart read or write (the product
  list and the search and filter fields are left out).\<close>

record CashierState =
  cart :: Cart
  isProductModalOpen :: bool
  productModalAnimating :: bool
  selectedProduct :: "Product option"
  modalVariant :: jsstring
  modalAddOns :: "ModalAddOn list"
  modalQuantity :: int
  isCartModalOpen :: bool
  cartModalAnimating :: bool
  editingCartIndex :: "nat option"

text \<open>\<open>[...array]\<close>, and \<open>array[index] = value\<close>.\<close>

definition spread :: "'a slot list \<Rightarrow> 'a slot list" where
  "spread xs = map (\<lambda>s. case s of Hole \<Rightarrow> Nullish | _ \<Rightarrow> s) xs"

definition array_set :: "'a slot list \<Rightarrow> nat \<Rightarrow> 'a \<Rightarrow> 'a slot list" where
  "array_set xs index v =
     (if index < length xs then xs[index := Item v]
      else xs @ replicate (index - length xs) Hole @ [Item v])"

text \<open>\<open>array.reduce(f, init)\<close>: a left fold that passes over the empty slots. The
  callback gets the value of the slot, \<open>None\<close> for \<open>undefined\<close> or \<open>null\<close>, and may
  throw.\<close>

fun reduce :: "('b \<Rightarrow> 'a option \<Rightarrow> js_error + 'b) \<Rightarrow> 'b \<Rightarrow> 'a slot list \<Rightarrow> js_error + 'b" where
  "reduce f acc [] = Inr acc"
| "reduce f acc (Hole # xs) = reduce f acc xs"
| "reduce f acc (Nullish # xs) =
     (case f acc None of Inl e \<Rightarrow> Inl e | Inr acc' \<Rightarrow> reduce f acc' xs)"
| "reduce f acc (Item x # xs) =
     (case f acc (Some x) of Inl e \<Rightarrow> Inl e | Inr acc' \<Rightarrow> reduce f acc' xs)"

text \<open>The items of an array, in order.\<close>

fun present :: "'a slot list \<Rightarrow> 'a list" where
  "present [] = []"
| "present (Item x # xs) = x # present xs"
| "present (_ # xs) = present xs"

text \<open>A JavaScript condition on an optional boolean: \<open>undefined\<close> is falsy.\<close>

definition truthy :: "bool option \<Rightarrow> bool" where
  "truthy b = (b = Some True)"

text \<open>
  \<open>closeProductModal\<close> stops the animation at once; 200 ms later its timer closes the
  dialog and clears the selection. The timer's callback is a step of its own.
\<close>

definition closeProductModal :: "CashierState \<Rightarrow> CashierState" where
  "closeProductModal s = s\<lparr>productModalAnimating := False\<rparr>"

definition closeProductModal_timeout :: "CashierState \<Rightarrow> CashierState" where
  "closeProductModal_timeout s =
     s\<lparr>isProductModalOpen := False, selectedProduct := None, editingCartIndex := None\<rparr>"

text \<open>
  \<open>openProductModal\<close> selects the product, asks the database for its add-ons when the
  product has any, and opens the dialog when the answer is there; the answer is the
  parameter \<open>fetched\<close>, \<open>None\<close> for an error or for no data. This is the call together
  with its continuation, no other handler running in between. Its timer starts the
  animation 10 ms later.
\<close>

definition openProductModal :: "Product \<Rightarrow> AddOn list option \<Rightarrow> CashierState \<Rightarrow> CashierState" where
  "openProductModal p fetched s =
     s\<lparr>selectedProduct := Some p, modalVariant := str ''Ice'', modalQuantity := 1,
       modalAddOns :=
         (if truthy (has_addons p) then
            (case fetched of
               Some data \<Rightarrow>
                 map (\<lambda>addon. \<lparr>name = name addon, price = price addon, selected = False\<rparr>) data
             | None \<Rightarrow> [])
          else []),
       isProductModalOpen := True\<rparr>"

definition openProductModal_timeout :: "CashierState \<Rightarrow> CashierState" where
  "openProductModal_timeout s = s\<lparr>productModalAnimating := True\<rparr>"

text \<open>
  The cart dialog lists the cart with an edit and a remove button for each item.
  \<open>closeCartModal\<close> works like \<open>closeProductModal\<close>. \<open>removeFromCart\<close> keeps the elements
  at the other indices (\<open>filter\<close> passes over the empty slots and builds an array without
  any) and closes the dialog when nothing is left.
\<close>

definition closeCartModal :: "CashierState \<Rightarrow> CashierState" where
  "closeCartModal s = s\<lparr>cartModalAnimating := False\<rparr>"

definition closeCartModal_timeout :: "CashierState \<Rightarrow> CashierState" where
  "closeCartModal_timeout s = s\<lparr>isCartModalOpen := False, editingCartIndex := None\<rparr>"

definition removeFromCart :: "nat \<Rightarrow> CashierState \<Rightarrow> CashierState" where
  "removeFromCart index s =
     (let newCart = map snd (filter (\<lambda>(i, x). x \<noteq> Hole \<and> i \<noteq> index) (enumerate 0 (cart s)))
      in if length newCart = 0 then closeCartModal (s\<lparr>cart := newCart\<rparr>)
         else s\<lparr>cart := newCart\<rparr>)"

text \<open>
  \<open>startEditCartItem\<close> is asynchronous. Up to the request for the add-ons of the product
  it reads \<open>cart[index]\<close> and sets the index, the product, the variant and the quantity
  of the dialog; it fails at \<open>item.product\<close>, the index already set, when \<open>cart[index]\<close>
  is no item. This first part returns the item, which the rest of the function holds.
  The rest runs when the answer is there (\<open>fetched\<close>, \<open>None\<close> for an error or for no data;
  a product without add-ons sends no request): it sets the add-ons of the dialog, marking
  those the item has, and starts closing the cart dialog; its timers close the cart
  dialog after 200 ms, open the product dialog after 250 ms and start its animation 10 ms
  later. The cart dialog stays open, its buttons enabled, while the request is under way.
\<close>

definition startEditCartItem :: "nat \<Rightarrow> CashierState \<Rightarrow> (js_error + CartItem) \<times> CashierState" where
  "startEditCartItem index s =
     (case (if index < length (cart s) then cart s ! index else Hole) of
        Item item \<Rightarrow>
          (Inr item,
           s\<lparr>editingCartIndex := Some index, selectedProduct := Some (product item),
             modalVariant := (case variant item of
                                Some v \<Rightarrow> if v = [] then str ''Ice'' else v
                              | None \<Rightarrow> str ''Ice''),
             modalQuantity := quantity item\<rparr>)
      | _ \<Rightarrow> (Inl TypeError, s\<lparr>editingCartIndex := Some index\<rparr>))"

definition startEditCartItem_fetched :: "CartItem \<Rightarrow> AddOn list option \<Rightarrow> CashierState \<Rightarrow> CashierState" where
  "startEditCartItem_fetched item fetched s =
     s\<lparr>modalAddOns :=
         (if truthy (has_addons (product item)) then
            (case fetched of
               Some data \<Rightarrow>
                 map (\<lambda>addon. \<lparr>name = name addon, price = price addon,
                               selected = (name addon \<in> name ` set (addOns item))\<rparr>) data
             | None \<Rightarrow> [])
          else []),
       cartModalAnimating := False\<rparr>"

definition startEditCartItem_timeout_200 :: "CashierState \<Rightarrow> CashierState" where
  "startEditCartItem_timeout_200 s = s\<lparr>isCartModalOpen := False\<rparr>"

definition startEditCartItem_timeout_250 :: "CashierState \<Rightarrow> CashierState" where
  "startEditCartItem_timeout_250 s = s\<lparr>isProductModalOpen := True\<rparr>"

definition startEditCartItem_timeout_260 :: "CashierState \<Rightarrow> CashierState" where
  "startEditCartItem_timeout_260 s = s\<lparr>productModalAnimating := True\<rparr>"

text \<open>The item that \<open>addToCart\<close> and \<open>updateCartItem\<close> both build from the dialog.\<close>

definition selectedAddOns :: "CashierState \<Rightarrow> AddOn list" where
  "selectedAddOns s =
     map (\<lambda>a. \<lparr>name = name a, price = price a\<rparr>) (filter (\<lambda>a. selected a) (modalAddOns s))"

definition addOnsTotal :: "CashierState \<Rightarrow> int" where
  "addOnsTotal s = foldl (\<lambda>sum a. sum + price a) 0 (selectedAddOns s)"

definition build_item :: "Product \<Rightarrow> CashierState \<Rightarrow> CartItem" where
  "build_item p s =
     (let totalPrice = (price p + addOnsTotal s) * modalQuantity s in
      \<lparr>quantity = modalQuantity s,
       variant = (if truthy (has_variants p) then Some (modalVariant s) else None),
       addOns = selectedAddOns s,
       totalPrice = totalPrice,
       product = p\<rparr>)"

definition updateCartItem :: "CashierState \<Rightarrow> CashierState" where
  "updateCartItem s =
     (case (selectedProduct s, editingCartIndex s) of
        (Some p, Some index) \<Rightarrow>
          (let updatedItem = build_item p s;
               newCart = array_set (spread (cart s)) index updatedItem
           in closeProductModal (s\<lparr>cart := newCart, editingCartIndex := None\<rparr>))
      | _ \<Rightarrow> s)"

definition addToCart :: "CashierState \<Rightarrow> CashierState" where
  "addToCart s =
     (case selectedProduct s of
        None \<Rightarrow> s
      | Some p \<Rightarrow>
          if editingCartIndex s \<noteq> None then updateCartItem s
          else let newItem = build_item p s
               in closeProductModal (s\<lparr>cart := spread (cart s) @ [Item newItem]\<rparr>))"

text \<open>\<open>grandTotal\<close> is recomputed from the cart at every render; the render fails when
  the cart holds an \<open>undefined\<close> or a \<open>null\<close>.\<close>

definition Cashier_grandTotal :: "Cart \<Rightarrow> js_error + int" where
  "Cashier_grandTotal c =
     reduce (\<lambda>sum item. case item of
                           None \<Rightarrow> Inl TypeError
                         | Some i \<Rightarrow> Inr (sum + totalPrice i)) 0 c"

text \<open>\<open>goToPayment\<close>, the handler of a render with its \<open>grandTotal\<close>, does nothing on an
  empty cart; otherwise it hands the cart and the total to \<open>Home.handleGoToPayment\<close>,
  which stores them as \<open>paymentData\<close>.\<close>

record PaymentData =
  pd_cart :: Cart
  pd_grandTotal :: int
  transactionId :: "jsstring option"
  transactionNumber :: "jsstring option"

definition handleGoToPayment :: "Cart \<Rightarrow> int \<Rightarrow> PaymentData" where
  "handleGoToPayment c grandTotal =
     \<lparr>pd_cart = c, pd_grandTotal = grandTotal, transactionId = None, transactionNumber = None\<rparr>"

definition goToPayment :: "CashierState \<Rightarrow> js_error + PaymentData option" where
  "goToPayment s =
     (case Cashier_grandTotal (cart s) of
        Inl e \<Rightarrow> Inl e
      | Inr grandTotal \<Rightarrow>
          Inr (if length (cart s) = 0 then None
               else Some (handleGoToPayment (cart s) grandTotal)))"

section \<open>Payment: the form, its validation and the transaction written\<close>

datatype TransactionType = Bayar_langsung | Open_bill

datatype PaymentMethod = Cash | Qris | Debit

text \<open>The string each payment method is at run time.\<close>

fun method_string :: "PaymentMethod \<Rightarrow> jsstring" where
  "method_string Cash = str ''cash''"
| "method_string Qris = str ''qris''"
| "method_string Debit = str ''debit''"

subsection \<open>Strings and numbers of the platform\<close>

definition isDigit :: "code_unit \<Rightarrow> bool" where
  "isDigit c = (0x30 \<le> c \<and> c \<le> 0x39)"

text \<open>White space and line terminators of ECMAScript, as \<open>trim\<close> and \<open>parseFloat\<close>
  skip them.\<close>

definition isWhiteSpace :: "code_unit \<Rightarrow> bool" where
  "isWhiteSpace c =
     (c = 0x09 \<or> c = 0x0A \<or> c = 0x0B \<or> c = 0x0C \<or> c = 0x0D \<or> c = 0x20 \<or> c = 0xA0
      \<or> c = 0x1680 \<or> (0x2000 \<le> c \<and> c \<le> 0x200A) \<or> c = 0x2028 \<or> c = 0x2029
      \<or> c = 0x202F \<or> c = 0x205F \<or> c = 0x3000 \<or> c = 0xFEFF)"

definition trim :: "jsstring \<Rightarrow> jsstring" where
  "trim s = rev (dropWhile isWhiteSpace (rev (dropWhile isWhiteSpace s)))"

text \<open>The number a sequence of decimal digits denotes.\<close>

definition digit_value :: "code_unit \<Rightarrow> int" where
  "digit_value c = uint c - 48"

definition decimal_value :: "jsstring \<Rightarrow> int" where
  "decimal_value ds = foldl (\<lambda>acc d. 10 * acc + digit_value d) 0 ds"

text \<open>
  \<open>parseFloat\<close> on whole numbers: leading white space is skipped, a sign is read, and
  the longest run of digits that follows is the value; with no digit there the result is
  \<open>NaN\<close>, here \<open>None\<close>. A fraction or an exponent after the digits and the word
  \<open>Infinity\<close> are not read: the cash field holds the digits typed or the \<open>toString\<close>
  of a whole amount.
\<close>

definition parseFloat :: "jsstring \<Rightarrow> int option" where
  "parseFloat s =
     (let t = dropWhile isWhiteSpace s;
          negative = (t \<noteq> [] \<and> hd t = 0x2D);
          u = (if t \<noteq> [] \<and> (hd t = 0x2D \<or> hd t = 0x2B) then tl t else t);
          ds = takeWhile isDigit u
      in if ds = [] then None
         else Some (if negative then - decimal_value ds else decimal_value ds))"

text \<open>\<open>Number.prototype.toString\<close> on a whole number.\<close>

function digits_of :: "nat \<Rightarrow> jsstring" where
  "digits_of n = (if n < 10 then [of_nat (48 + n)] else digits_of (n div 10) @ [of_nat (48 + n mod 10)])"
  by pat_completeness auto
termination
  by (relation "measure (\<lambda>n. n)") auto

declare digits_of.simps [simp del]

definition toString :: "int \<Rightarrow> jsstring" where
  "toString n = (if n < 0 then 0x2D # digits_of (nat (- n)) else digits_of (nat n))"

text \<open>Comparisons of a number that may be \<open>NaN\<close> with a number: false on \<open>NaN\<close>.\<close>

definition num_less :: "int option \<Rightarrow> int \<Rightarrow> bool" where
  "num_less a b = (case a of None \<Rightarrow> False | Some x \<Rightarrow> x < b)"

subsection \<open>Rows of the \<open>transactions\<close> table\<close>

record TransactionItem = OrderLine +
  product_id :: jsstring
  product_name :: jsstring
  unit_price :: int

text \<open>
  The object \<open>handleProcessPayment\<close> inserts, and the row the database makes of it: the
  database adds the key, the transaction number and the dates. The fields \<open>id\<close> and
  \<open>created_at\<close> of a row are written \<open>row_id\<close> and \<open>row_created_at\<close>, the fields
  \<open>notes\<close> and \<open>total\<close> are written \<open>notes'\<close> and \<open>total'\<close>, and the field
  \<open>price\<close> of an item \<open>unit_price\<close>. The object is sent as JSON: a \<open>null\<close> is
  \<open>None\<close>, and so are a \<open>NaN\<close> amount and an empty slot of \<open>items\<close>, which are sent
  as \<open>null\<close>.
\<close>

record TransactionData =
  items :: "TransactionItem option list"
  subtotal :: int
  total' :: int
  payment_status :: jsstring
  payment_method :: "jsstring option"
  cash_received :: "int option"
  cash_change :: "int option"
  customer_name :: "jsstring option"
  notes' :: "jsstring option"
  cashier_name :: jsstring
  created_by :: jsstring

record Transaction = TransactionData +
  row_id :: jsstring
  transaction_number :: jsstring
  transaction_date :: jsstring
  row_created_at :: jsstring

record UpdateData =
  upd_payment_status :: jsstring
  upd_payment_method :: jsstring
  upd_cash_received :: "int option"
  upd_cash_change :: "int option"

subsection \<open>The database client\<close>

text \<open>
  The two requests of \<open>handleProcessPayment\<close> go through the client of the hosted
  database, which is not part of the repository; it is a parameter of the model. A
  request takes the database to a new one and answers with the row or an error:
  \<open>insert_single\<close> is \<open>.from('transactions').insert([x]).select().single()\<close>, and
  \<open>update_single\<close> is \<open>.from('transactions').update(x).eq('id', k).select().single()\<close>.
\<close>

datatype db_error = RequestFailed | NotASingleRow

record 'db Supabase =
  insert_single :: "TransactionData \<Rightarrow> 'db \<Rightarrow> (db_error + Transaction) \<times> 'db"
  update_single :: "UpdateData \<Rightarrow> jsstring \<Rightarrow> 'db \<Rightarrow> (db_error + Transaction) \<times> 'db"

text \<open>
  The table as the database keeps it: a list of rows. An insert appends the row, with
  the columns the database fills in taken from \<open>defaults\<close>; an update writes the
  columns it names into every row whose key matches and touches nothing else; \<open>single\<close>
  answers with the row when exactly one row comes back.
\<close>

record Generated =
  gen_id :: jsstring
  gen_number :: jsstring
  gen_date :: jsstring

definition single :: "Transaction list \<Rightarrow> db_error + Transaction" where
  "single rs = (case rs of [r] \<Rightarrow> Inr r | _ \<Rightarrow> Inl NotASingleRow)"

definition table_insert ::
  "(Transaction list \<Rightarrow> Generated) \<Rightarrow> TransactionData \<Rightarrow> Transaction list
     \<Rightarrow> (db_error + Transaction) \<times> Transaction list" where
  "table_insert defaults x rows =
     (let g = defaults rows;
          row = \<lparr>items = items x, subtotal = subtotal x, total' = total' x,
                 payment_status = payment_status x, payment_method = payment_method x,
                 cash_received = cash_received x, cash_change = cash_change x,
                 customer_name = customer_name x, notes' = notes' x,
                 cashier_name = cashier_name x, created_by = created_by x,
                 row_id = gen_id g, transaction_number = gen_number g,
                 transaction_date = gen_date g, row_created_at = gen_date g\<rparr>
      in (single [row], rows @ [row]))"

definition apply_update :: "UpdateData \<Rightarrow> Transaction \<Rightarrow> Transaction" where
  "apply_update x r =
     r\<lparr>payment_status := upd_payment_status x,
       payment_method := Some (upd_payment_method x),
       cash_received := upd_cash_received x,
       cash_change := upd_cash_change x\<rparr>"

definition table_update ::
  "UpdateData \<Rightarrow> jsstring \<Rightarrow> Transaction list \<Rightarrow> (db_error + Transaction) \<times> Transaction list" where
  "table_update x k rows =
     (let rows' = map (\<lambda>r. if row_id r = k then apply_update x r else r) rows
      in (single (filter (\<lambda>r. row_id r = k) rows'), rows'))"

definition table_client :: "(Transaction list \<Rightarrow> Generated) \<Rightarrow> Transaction list Supabase" where
  "table_client defaults =
     \<lparr>insert_single = table_insert defaults, update_single = table_update\<rparr>"

subsection \<open>The component\<close>

record PaymentProps =
  props_cart :: Cart
  grandTotal :: int
  cashierName :: jsstring
  userId :: jsstring
  existingTransactionId :: "jsstring option"
  existingTransactionNumber :: "jsstring option"

text \<open>\<open>Home\<close> renders \<open>Payment\<close> with the stored \<open>paymentData\<close> and the name and key of
  the user who is logged in.\<close>

definition Payment_props :: "jsstring \<Rightarrow> jsstring \<Rightarrow> PaymentData \<Rightarrow> PaymentProps" where
  "Payment_props cashier uid pd =
     \<lparr>props_cart = pd_cart pd, grandTotal = pd_grandTotal pd,
      cashierName = cashier, userId = uid,
      existingTransactionId = transactionId pd,
      existingTransactionNumber = transactionNumber pd\<rparr>"

text \<open>The state of the component, and the toasts it has shown (title and message).\<close>

record PaymentState =
  transactionType :: TransactionType
  paymentMethod :: PaymentMethod
  isProcessing :: bool
  cashReceived :: jsstring
  cashChange :: int
  customerName :: jsstring
  notes_field :: jsstring
  showReceipt :: bool
  transactionData :: "Transaction option"
  toasts :: "(jsstring \<times> jsstring) list"

definition initial_PaymentState :: PaymentState where
  "initial_PaymentState =
     \<lparr>transactionType = Bayar_langsung, paymentMethod = Cash, isProcessing = False,
      cashReceived = [], cashChange = 0, customerName = [], notes_field = [],
      showReceipt = False, transactionData = None, toasts = []\<rparr>"

text \<open>
  A JavaScript number is a double. Every integer of magnitude at most \<open>2^53\<close> is a
  double, \<open>parseFloat\<close> and \<open>toString\<close> are exact on these, and a difference of two of
  them that lies in the range again is computed exactly. The two handlers of the cash
  field are modelled where their numbers stay in this range; outside it the code stores
  rounded amounts (and, from \<open>10^21\<close> on, a string with an exponent), which the model
  does not give: the result is \<open>Rounded\<close>.
\<close>

definition exact_integer :: "int \<Rightarrow> bool" where
  "exact_integer n = (- (2 ^ 53) \<le> n \<and> n \<le> 2 ^ 53)"

datatype 'a exactly = Exactly 'a | Rounded

definition handleCashReceivedChange ::
  "PaymentProps \<Rightarrow> jsstring \<Rightarrow> PaymentState \<Rightarrow> PaymentState exactly" where
  "handleCashReceivedChange props v s =
     (let numValue = filter isDigit v;
          s1 = s\<lparr>cashReceived := numValue\<rparr>
      in if numValue \<noteq> [] then
           (case parseFloat numValue of
              None \<Rightarrow> Exactly (s1\<lparr>cashChange := 0\<rparr>)
            | Some received \<Rightarrow>
                let change = received - grandTotal props
                in if exact_integer received \<and> exact_integer (grandTotal props)
                      \<and> exact_integer change
                   then Exactly (s1\<lparr>cashChange := (if change \<ge> 0 then change else 0)\<rparr>)
                   else Rounded)
         else Exactly (s1\<lparr>cashChange := 0\<rparr>))"

definition setQuickCash :: "PaymentProps \<Rightarrow> int \<Rightarrow> PaymentState \<Rightarrow> PaymentState exactly" where
  "setQuickCash props amount s =
     (let change = amount - grandTotal props
      in if exact_integer amount \<and> exact_integer (grandTotal props) \<and> exact_integer change
         then Exactly (s\<lparr>cashReceived := toString amount,
                         cashChange := (if change \<ge> 0 then change else 0)\<rparr>)
         else Rounded)"

definition validatePayment :: "PaymentProps \<Rightarrow> PaymentState \<Rightarrow> jsstring option" where
  "validatePayment props s =
     (case transactionType s of
        Bayar_langsung \<Rightarrow>
          (if paymentMethod s = Cash then
             (if cashReceived s = [] then Some (str ''Masukkan nominal pembayaran'')
              else let received = parseFloat (cashReceived s)
                   in if num_less received (grandTotal props)
                      then Some (str ''Nominal pembayaran kurang'')
                      else None)
           else None)
      | Open_bill \<Rightarrow>
          (if trim (customerName s) = [] then Some (str ''Masukkan nama pelanggan'') else None))"

definition isFormValid :: "PaymentProps \<Rightarrow> PaymentState \<Rightarrow> bool" where
  "isFormValid props s =
     (case transactionType s of
        Bayar_langsung \<Rightarrow>
          (if paymentMethod s = Cash then
             (if cashReceived s = [] then False
              else let received = parseFloat (cashReceived s)
                   in if num_less received (grandTotal props) then False else True)
           else True)
      | Open_bill \<Rightarrow> length (trim (customerName s)) > 0)"

text \<open>The object written for an open bill that is being paid.\<close>

definition updateData :: "PaymentState \<Rightarrow> UpdateData" where
  "updateData s =
     \<lparr>upd_payment_status = str ''paid'',
      upd_payment_method = method_string (paymentMethod s),
      upd_cash_received = (if paymentMethod s = Cash then parseFloat (cashReceived s) else None),
      upd_cash_change = (if paymentMethod s = Cash then Some (cashChange s) else None)\<rparr>"

text \<open>The object written for a new transaction. \<open>x || null\<close> on a string is \<open>null\<close>
  for the empty string.\<close>

definition item_of :: "CartItem \<Rightarrow> TransactionItem" where
  "item_of item =
     \<lparr>quantity = quantity item, variant = variant item, addOns = addOns item,
      totalPrice = totalPrice item,
      product_id = id' (product item), product_name = name (product item),
      unit_price = price (product item)\<rparr>"

text \<open>\<open>cart.map(item => ...)\<close> passes over the empty slots and throws on an
  \<open>undefined\<close> or \<open>null\<close> element.\<close>

fun map_items :: "Cart \<Rightarrow> js_error + TransactionItem option list" where
  "map_items [] = Inr []"
| "map_items (Hole # rest) =
     (case map_items rest of Inl e \<Rightarrow> Inl e | Inr its \<Rightarrow> Inr (None # its))"
| "map_items (Nullish # rest) = Inl TypeError"
| "map_items (Item item # rest) =
     (case map_items rest of Inl e \<Rightarrow> Inl e | Inr its \<Rightarrow> Inr (Some (item_of item) # its))"

definition new_transactionData :: "PaymentProps \<Rightarrow> PaymentState \<Rightarrow> js_error + TransactionData" where
  "new_transactionData props s =
     (case map_items (props_cart props) of
        Inl e \<Rightarrow> Inl e
      | Inr its \<Rightarrow> Inr
     \<lparr>items = its,
      subtotal = grandTotal props,
      total' = grandTotal props,
      payment_status = (if transactionType s = Open_bill then str ''open_bill'' else str ''paid''),
      payment_method =
        (if transactionType s = Bayar_langsung then Some (method_string (paymentMethod s)) else None),
      cash_received =
        (if paymentMethod s = Cash \<and> transactionType s = Bayar_langsung
         then parseFloat (cashReceived s) else None),
      cash_change =
        (if paymentMethod s = Cash \<and> transactionType s = Bayar_langsung
         then Some (cashChange s) else None),
      customer_name = (if transactionType s = Open_bill then Some (trim (customerName s)) else None),
      notes' = (if trim (notes_field s) = [] then None else Some (trim (notes_field s))),
      cashier_name = cashierName props,
      created_by = userId props\<rparr>)"

text \<open>
  \<open>handleProcessPayment\<close>: a validation error is shown and nothing is sent. Otherwise
  the open bill named by \<open>existingTransactionId\<close> is updated, or a new transaction is
  inserted (also when the identifier is the empty string, which is falsy); the row that
  comes back is kept for the receipt. An error of the request, or one thrown while the
  object is built, is caught and shown as a toast. \<open>isProcessing\<close> is false again in the
  end.
\<close>

definition request_failed :: "PaymentState \<Rightarrow> PaymentState" where
  "request_failed s =
     s\<lparr>toasts := toasts s @
          [(str ''Gagal Memproses Pembayaran'',
            str ''Terjadi kesalahan saat memproses pembayaran. Silakan coba lagi.'')],
       isProcessing := False\<rparr>"

definition request_done :: "PaymentState \<Rightarrow> (db_error + Transaction) \<times> 'db \<Rightarrow> PaymentState \<times> 'db" where
  "request_done s = (\<lambda>(answer, db').
     case answer of
       Inr data \<Rightarrow>
         (s\<lparr>transactionData := Some data, showReceipt := True, isProcessing := False\<rparr>, db')
     | Inl error \<Rightarrow> (request_failed s, db'))"

definition create_transaction ::
  "'db Supabase \<Rightarrow> PaymentProps \<Rightarrow> PaymentState \<Rightarrow> 'db \<Rightarrow> PaymentState \<times> 'db" where
  "create_transaction supabase props s db =
     (case new_transactionData props s of
        Inl thrown \<Rightarrow> (request_failed s, db)
      | Inr payload \<Rightarrow> request_done s (insert_single supabase payload db))"

definition handleProcessPayment ::
  "'db Supabase \<Rightarrow> PaymentProps \<Rightarrow> PaymentState \<times> 'db \<Rightarrow> PaymentState \<times> 'db" where
  "handleProcessPayment supabase props = (\<lambda>(s, db).
     case validatePayment props s of
       Some validationError \<Rightarrow>
         (s\<lparr>toasts := toasts s @ [(str ''Validasi Gagal'', validationError)]\<rparr>, db)
     | None \<Rightarrow>
         (case existingTransactionId props of
            Some k \<Rightarrow>
              if k \<noteq> [] then request_done s (update_single supabase (updateData s) k db)
              else create_transaction supabase props s db
          | None \<Rightarrow> create_transaction supabase props s db))"

section \<open>Reports: overview and best sellers\<close>

text \<open>
  The transactions come from the database, so the array has no empty slot; an item that
  is \<open>null\<close> in the stored array is \<open>None\<close>. Counts are natural numbers.

  The average is the result of a division of doubles, which the platform rounds: it is
  kept as the division it is, \<open>Quotient a b\<close> being the double that \<open>a / b\<close> evaluates
  to in JavaScript, and \<open>Number n\<close> the whole number \<open>n\<close>.
\<close>

datatype number = Number int | Quotient int nat

record OverviewStats =
  totalSales :: int
  totalTransactions :: nat
  averageTransaction :: number
  openBills :: nat
  todaySales :: int

text \<open>
  \<open>new Date(s)\<close> is the platform's: \<open>Date_parse\<close> gives the time value of a date
  string, \<open>None\<close> for an invalid date. \<open>today\<close> is the time value of the last local
  midnight, read from the clock. A comparison with an invalid date is false.
\<close>

definition date_ge :: "int option \<Rightarrow> int \<Rightarrow> bool" where
  "date_ge d today = (case d of None \<Rightarrow> False | Some v \<Rightarrow> v \<ge> today)"

definition calculateStats ::
  "(jsstring \<Rightarrow> int option) \<Rightarrow> int \<Rightarrow> Transaction list \<Rightarrow> OverviewStats" where
  "calculateStats Date_parse today data =
     (let paidTransactions = filter (\<lambda>t. payment_status t = str ''paid'') data;
          openBillsCount = length (filter (\<lambda>t. payment_status t = str ''open_bill'') data);
          totalSales = foldl (\<lambda>sum t. sum + total' t) 0 paidTransactions;
          totalTransactions = length paidTransactions;
          averageTransaction =
            (if totalTransactions > 0 then Quotient totalSales totalTransactions
             else Number 0);
          todaySales =
            foldl (\<lambda>sum t. sum + total' t) 0
              (filter (\<lambda>t. date_ge (Date_parse (transaction_date t)) today) paidTransactions)
      in \<lparr>totalSales = totalSales,
          totalTransactions = totalTransactions,
          averageTransaction = averageTransaction,
          openBills = openBillsCount,
          todaySales = todaySales\<rparr>)"

text \<open>
  The \<open>Map\<close> of \<open>calculateBestSellers\<close> keeps its keys in the order they were first set;
  it is an association list, and a value is the pair of \<open>quantity\<close> and \<open>revenue\<close>.
\<close>

type_synonym ProductMap = "(jsstring \<times> int \<times> int) list"

fun map_set :: "'k \<Rightarrow> 'v \<Rightarrow> ('k \<times> 'v) list \<Rightarrow> ('k \<times> 'v) list" where
  "map_set k v [] = [(k, v)]"
| "map_set k v ((k', v') # m) = (if k' = k then (k, v) # m else (k', v') # map_set k v m)"

definition add_item :: "TransactionItem \<Rightarrow> ProductMap \<Rightarrow> ProductMap" where
  "add_item item productMap =
     (let existing = (case map_of productMap (product_name item) of
                        None \<Rightarrow> (0, 0)
                      | Some e \<Rightarrow> e)
      in map_set (product_name item)
           (fst existing + quantity item, snd existing + totalPrice item) productMap)"

text \<open>The two \<open>forEach\<close> loops. Reading \<open>product_name\<close> of a \<open>null\<close> item throws.\<close>

fun add_items :: "TransactionItem option list \<Rightarrow> ProductMap \<Rightarrow> js_error + ProductMap" where
  "add_items [] productMap = Inr productMap"
| "add_items (None # rest) productMap = Inl TypeError"
| "add_items (Some item # rest) productMap = add_items rest (add_item item productMap)"

fun add_transactions :: "Transaction list \<Rightarrow> ProductMap \<Rightarrow> js_error + ProductMap" where
  "add_transactions [] productMap = Inr productMap"
| "add_transactions (t # ts) productMap =
     (case add_items (items t) productMap of
        Inl e \<Rightarrow> Inl e
      | Inr productMap' \<Rightarrow> add_transactions ts productMap')"

record BestSellerProduct =
  best_product_name :: jsstring
  total_quantity :: int
  total_revenue :: int

text \<open>
  \<open>Array.prototype.sort\<close> is stable, and the comparator
  \<open>(a, b) => b.total_quantity - a.total_quantity\<close> orders by decreasing quantity: a stable
  sort on the negated quantity. \<open>slice(0, 5)\<close> keeps the first five.
\<close>

definition calculateBestSellers :: "Transaction list \<Rightarrow> js_error + BestSellerProduct list" where
  "calculateBestSellers data =
     (let paidTransactions = filter (\<lambda>t. payment_status t = str ''paid'') data
      in case add_transactions paidTransactions [] of
           Inl e \<Rightarrow> Inl e
         | Inr productMap \<Rightarrow>
             Inr (take 5
                   (sort_key (\<lambda>b. - total_quantity b)
                      (map (\<lambda>(name, data).
                              \<lparr>best_product_name = name,
                               total_quantity = fst data,
                               total_revenue = snd data\<rparr>) productMap))))"

text \<open>What the report is meant to show: the items of the paid transactions, and the
  quantity and revenue of a product over them.\<close>

fun non_null :: "'a option list \<Rightarrow> 'a list" where
  "non_null [] = []"
| "non_null (None # xs) = non_null xs"
| "non_null (Some x # xs) = x # non_null xs"

definition paid_items :: "Transaction list \<Rightarrow> TransactionItem list" where
  "paid_items data =
     concat (map (\<lambda>t. non_null (items t)) (filter (\<lambda>t. payment_status t = str ''paid'') data))"

definition quantity_sold :: "jsstring \<Rightarrow> TransactionItem list \<Rightarrow> int" where
  "quantity_sold n its = sum_list (map quantity (filter (\<lambda>i. product_name i = n) its))"

definition revenue_of :: "jsstring \<Rightarrow> TransactionItem list \<Rightarrow> int" where
  "revenue_of n its = sum_list (map totalPrice (filter (\<lambda>i. product_name i = n) its))"

text \<open>The pair a product has in the map; \<open>(0, 0)\<close> when it has none.\<close>

definition entry :: "ProductMap \<Rightarrow> jsstring \<Rightarrow> int \<times> int" where
  "entry m n = (case map_of m n of None \<Rightarrow> (0, 0) | Some e \<Rightarrow> e)"

section \<open>App, Cashier and Home: what is kept in the browser\<close>



record User =
  user_id :: jsstring
  username :: jsstring
  role :: jsstring

datatype user_value = Null | A_user User | Other_value











section \<open>Sample data\<close>

text \<open>A product with one add-on selected, ordered twice; a cash payment of the cart; an
  open bill in the table next to a paid transaction; a user.\<close>

definition sample_product :: Product where
  "sample_product =
     \<lparr>name = str ''Kopi Susu'', price = 18000, id' = str ''p1'', category = str ''Kopi'',
      recipe = None, image_url = [], has_variants = Some True, has_addons = Some True,
      created_at = []\<rparr>"

definition sample_cashier :: CashierState where
  "sample_cashier =
     \<lparr>cart = [], isProductModalOpen = True, productModalAnimating = True,
      selectedProduct = Some sample_product, modalVariant = str ''Ice'',
      modalAddOns = [\<lparr>name = str ''Extra Shot'', price = 5000, selected = True\<rparr>,
                     \<lparr>name = str ''Oat Milk'', price = 8000, selected = False\<rparr>],
      modalQuantity = 2, isCartModalOpen = False, cartModalAnimating = False,
      editingCartIndex = None\<rparr>"

definition sample_item :: CartItem where
  "sample_item =
     \<lparr>quantity = 2, variant = Some (str ''Ice''),
      addOns = [\<lparr>name = str ''Extra Shot'', price = 5000\<rparr>],
      totalPrice = 46000, product = sample_product\<rparr>"

definition sample_props :: PaymentProps where
  "sample_props =
     \<lparr>props_cart = [Item sample_item], grandTotal = 46000, cashierName = str ''ani'',
      userId = str ''u1'', existingTransactionId = None, existingTransactionNumber = None\<rparr>"

definition sample_defaults :: "Transaction list \<Rightarrow> Generated" where
  "sample_defaults rows =
     \<lparr>gen_id = str ''t3'', gen_number = str ''TRX-0003'', gen_date = str ''2025-01-02''\<rparr>"

definition sample_open_bill :: Transaction where
  "sample_open_bill =
     \<lparr>items = [Some (item_of sample_item)], subtotal = 46000, total' = 46000,
      payment_status = str ''open_bill'', payment_method = None,
      cash_received = None, cash_change = None,
      customer_name = Some (str ''Budi''), notes' = None,
      cashier_name = str ''ani'', created_by = str ''u1'',
      row_id = str ''t1'', transaction_number = str ''TRX-0001'',
      transaction_date = str ''2025-01-01'', row_created_at = str ''2025-01-01''\<rparr>"

definition sample_paid :: Transaction where
  "sample_paid =
     \<lparr>items = [Some (item_of sample_item), Some (item_of sample_item)],
      subtotal = 92000, total' = 92000,
      payment_status = str ''paid'', payment_method = Some (str ''qris''),
      cash_received = None, cash_change = None,
      customer_name = None, notes' = None,
      cashier_name = str ''ani'', created_by = str ''u1'',
      row_id = str ''t2'', transaction_number = str ''TRX-0002'',
      transaction_date = str ''2025-01-02'', row_created_at = str ''2025-01-02''\<rparr>"














text \<open>The payment form after 50000 was typed into the cash field, and the payment
  screen opened for the open bill of the table.\<close>

definition paying_cash :: PaymentState where
  "paying_cash = initial_PaymentState\<lparr>cashReceived := str ''50000'', cashChange := 4000\<rparr>"

definition open_bill_props :: PaymentProps where
  "open_bill_props =
     sample_props\<lparr>existingTransactionId := Some (str ''t1''),
                   existingTransactionNumber := Some (str ''TRX-0001'')\<rparr>"

text \<open>
  A session at the cashier screen. The cart holds three items and the cart dialog is
  open. The cashier presses the edit button of the third item and, while the request for
  its add-ons is under way, removes the second item and then the item that has become the
  second. The answer arrives, the product dialog opens, and the cashier saves the item as
  it is. Later the cashier adds one more product to the cart.
\<close>

definition second_item :: CartItem where
  "second_item = sample_item\<lparr>quantity := 1, totalPrice := 23000\<rparr>"

definition third_item :: CartItem where
  "third_item = sample_item\<lparr>quantity := 3, totalPrice := 69000\<rparr>"

definition sample_addons :: "AddOn list" where
  "sample_addons =
     [\<lparr>name = str ''Extra Shot'', price = 5000\<rparr>, \<lparr>name = str ''Oat Milk'', price = 8000\<rparr>]"

definition cart_dialog_open :: CashierState where
  "cart_dialog_open =
     \<lparr>cart = [Item sample_item, Item second_item, Item third_item],
      isProductModalOpen = False, productModalAnimating = False,
      selectedProduct = None, modalVariant = str ''Ice'', modalAddOns = [],
      modalQuantity = 1, isCartModalOpen = True, cartModalAnimating = True,
      editingCartIndex = None\<rparr>"

definition edit_pressed :: CashierState where
  "edit_pressed = snd (startEditCartItem 2 cart_dialog_open)"

definition two_removed :: CashierState where
  "two_removed = removeFromCart 1 (removeFromCart 1 edit_pressed)"

definition edit_dialog_open :: CashierState where
  "edit_dialog_open =
     startEditCartItem_timeout_260 (startEditCartItem_timeout_250 (startEditCartItem_timeout_200
       (startEditCartItem_fetched third_item (Some sample_addons) two_removed)))"

definition edit_saved :: CashierState where
  "edit_saved = closeProductModal_timeout (addToCart edit_dialog_open)"

definition next_added :: CashierState where
  "next_added =
     closeProductModal_timeout
       (addToCart (openProductModal_timeout
          (openProductModal sample_product (Some sample_addons) edit_saved)))"

text \<open>The payment form when QRIS has been chosen.\<close>

definition paying_qris :: PaymentState where
  "paying_qris = initial_PaymentState\<lparr>paymentMethod := Qris\<rparr>"

text \<open>A date parser that knows the two sample dates, as days.\<close>

definition sample_date :: "jsstring \<Rightarrow> int option" where
  "sample_date s =
     (if s = str ''2025-01-01'' then Some 1 else if s = str ''2025-01-02'' then Some 2 else None)"

text \<open>An open bill and three paid transactions, the last one dated the day before.\<close>

definition sample_sales :: "Transaction list" where
  "sample_sales =
     [sample_open_bill, sample_paid, sample_paid\<lparr>total' := 46000\<rparr>,
      sample_paid\<lparr>total' := 46001, transaction_date := str ''2025-01-01''\<rparr>]"

section \<open>Verified properties\<close>

subsection \<open>The receipt line formatter\<close>

lemma length_str: "length (str s) = length s"
  by (simp add: str_def)

lemma str_not_Nil: "str (c # cs) \<noteq> []"
  by (simp add: str_def)

lemma substring_prefix:
  "0 \<le> k \<Longrightarrow> k \<le> int (length s) \<Longrightarrow> substring s 0 k = take (nat k) s"
  by (simp add: substring_def Let_def min_def max_def)

lemma repeat_space: "repeat (str '' '') n = replicate (nat n) (0x20 :: code_unit)"
proof -
  have "concat (replicate k [x]) = replicate k x" for k and x :: code_unit
    by (induction k) simp_all
  then show ?thesis
    by (simp add: repeat_def str_def)
qed

text \<open>
  C6. For every \<open>left\<close>, \<open>right\<close> and width \<open>maxLength\<close> with \<open>right\<close> no longer than
  \<open>maxLength\<close>, \<open>justifyLine\<close> returns exactly \<open>maxLength\<close> code units ending in
  \<open>right\<close>: \<open>left\<close>, spaces, \<open>right\<close> when the two together are shorter than the width,
  and otherwise \<open>left\<close> cut to \<open>maxLength - right.length\<close> code units followed by
  \<open>right\<close>. The default width is 32, and the three separator lines are 32 wide.
\<close>

theorem justifyLine_exact_width:
  assumes "int (length right) \<le> maxLength"
  shows "length (justifyLine left right maxLength) = nat maxLength
       \<and> drop (nat maxLength - length right) (justifyLine left right maxLength) = right
       \<and> (int (length left) + int (length right) < maxLength \<longrightarrow>
            justifyLine left right maxLength =
              left @ replicate (nat maxLength - (length left + length right)) 0x20 @ right)
       \<and> (\<not> int (length left) + int (length right) < maxLength \<longrightarrow>
            justifyLine left right maxLength =
              take (nat maxLength - length right) left @ right)
       \<and> justifyLine_default left right = justifyLine left right 32
       \<and> length LINE_SINGLE = 32 \<and> length LINE_DOUBLE = 32 \<and> length LINE_DASHED = 32"
proof (cases "int (length left) + int (length right) < maxLength")
  case True
  have eq: "justifyLine left right maxLength =
      left @ replicate (nat maxLength - (length left + length right)) 0x20 @ right"
    using True by (simp add: justifyLine_def Let_def repeat_space nat_diff_distrib')
  have len: "length (justifyLine left right maxLength) = nat maxLength"
    unfolding eq using True by simp
  have suf: "drop (nat maxLength - length right) (justifyLine left right maxLength) = right"
    unfolding eq using True by simp
  show ?thesis
    using True eq len suf
    by (simp add: justifyLine_default_def LINE_SINGLE_def LINE_DOUBLE_def LINE_DASHED_def
        length_str)
next
  case False
  have k: "0 \<le> maxLength - int (length right)" "maxLength - int (length right) \<le> int (length left)"
    using assms False by simp_all
  have eq: "justifyLine left right maxLength = take (nat maxLength - length right) left @ right"
    using False assms by (simp add: justifyLine_def Let_def substring_prefix [OF k] nat_diff_distrib')
  have len: "length (justifyLine left right maxLength) = nat maxLength"
    unfolding eq using False assms by simp
  have suf: "drop (nat maxLength - length right) (justifyLine left right maxLength) = right"
    unfolding eq using False assms by simp
  show ?thesis
    using False eq len suf
    by (simp add: justifyLine_default_def LINE_SINGLE_def LINE_DOUBLE_def LINE_DASHED_def
        length_str)
qed

theorem justifyLine_exact_width_witness:
  "int (length (str ''Rp 5.000'')) \<le> 12
   \<and> justifyLine (str ''TOTAL:'') (str ''Rp 5.000'') 12 = str ''TOTARp 5.000''
   \<and> justifyLine (str ''Kasir:'') (str ''ani'') 12 = str ''Kasir:   ani''
   \<and> justifyLine (str ''Es Kopi Susu Gula Aren'') (str ''Rp 5.000'') 12 = str ''Es KRp 5.000''
   \<and> length (justifyLine (str ''Es Kopi Susu Gula Aren'') (str ''Rp 5.000'') 12) = nat 12"
proof -
  have h: "int (length (str ''Rp 5.000'')) \<le> 12"
    by (simp add: length_str)
  have "length (justifyLine (str ''Es Kopi Susu Gula Aren'') (str ''Rp 5.000'') 12) = nat 12"
    using justifyLine_exact_width [OF h, of "str ''Es Kopi Susu Gula Aren''"] by blast
  moreover have "justifyLine (str ''TOTAL:'') (str ''Rp 5.000'') 12 = str ''TOTARp 5.000''"
    by code_simp
  moreover have "justifyLine (str ''Kasir:'') (str ''ani'') 12 = str ''Kasir:   ani''"
    by code_simp
  moreover have "justifyLine (str ''Es Kopi Susu Gula Aren'') (str ''Rp 5.000'') 12
      = str ''Es KRp 5.000''"
    by code_simp
  ultimately show ?thesis
    using h by blast
qed

subsection \<open>Chunked transmission\<close>

lemma concat_chunks_of: "0 < n \<Longrightarrow> concat (chunks_of n xs) = xs"
proof (induction n xs rule: chunks_of.induct)
  case (1 n xs)
  then show ?case
    by (subst chunks_of.simps) auto
qed

lemma chunks_of_member:
  "c \<in> set (chunks_of n xs) \<Longrightarrow> length c \<le> n \<and> c \<noteq> []"
proof (induction n xs rule: chunks_of.induct)
  case (1 n xs)
  show ?case
  proof (cases "n = 0 \<or> xs = []")
    case True
    with "1.prems" show ?thesis by (simp add: chunks_of.simps)
  next
    case False
    then have "chunks_of n xs = take n xs # chunks_of n (drop n xs)"
      by (subst chunks_of.simps) simp
    with "1.prems" have "c = take n xs \<or> c \<in> set (chunks_of n (drop n xs))"
      by simp
    then show ?thesis
      using False "1.IH" [OF False] by auto
  qed
qed

lemma chunks_of_butlast_full: "c \<in> set (butlast (chunks_of n xs)) \<Longrightarrow> length c = n"
proof (induction n xs rule: chunks_of.induct)
  case (1 n xs)
  show ?case
  proof (cases "n = 0 \<or> xs = []")
    case True
    with "1.prems" show ?thesis by (simp add: chunks_of.simps)
  next
    case False
    then have unf: "chunks_of n xs = take n xs # chunks_of n (drop n xs)"
      by (subst chunks_of.simps) simp
    show ?thesis
    proof (cases "chunks_of n (drop n xs) = []")
      case True
      with "1.prems" unf show ?thesis by simp
    next
      case ne: False
      then have "drop n xs \<noteq> []"
        by (auto simp: chunks_of.simps)
      then have full: "length (take n xs) = n" by simp
      from "1.prems" unf ne have "c = take n xs \<or> c \<in> set (butlast (chunks_of n (drop n xs)))"
        by auto
      then show ?thesis
        using full "1.IH" [OF False] by auto
    qed
  qed
qed

lemma sendData_loop_write_each:
  "sendData_loop writeValue encoded i ch =
     write_each writeValue ch (chunks_of chunkSize (drop i encoded))"
proof (induction "length encoded - i" arbitrary: i ch rule: less_induct)
  case less
  show ?case
  proof (cases "i < length encoded")
    case False
    then show ?thesis
      by (subst sendData_loop.simps) (simp add: chunks_of.simps)
  next
    case True
    have step: "length encoded - (i + chunkSize) < length encoded - i"
      using True by (simp add: chunkSize_def)
    have ne: "drop i encoded \<noteq> []" using True by simp
    have "chunks_of chunkSize (drop i encoded) =
       slice encoded i (i + chunkSize) # chunks_of chunkSize (drop (i + chunkSize) encoded)"
      using ne by (subst chunks_of.simps) (simp add: slice_def chunkSize_def add.commute)
    then show ?thesis
      using True less [OF step]
      by (subst sendData_loop.simps) (simp add: Let_def split: sum.splits)
  qed
qed

lemma write_each_record: "write_each record_write received cs = Inr (received @ cs)"
  by (induction cs arbitrary: received) (simp_all add: record_write_def)

text \<open>
  C10. For every input string, \<open>sendData\<close> on a connected characteristic issues the
  writes of a sequence of chunks, in order, each of at most 20 bytes and none empty, all
  but the last of exactly 20 bytes, whose concatenation is the UTF-8 encoding of the
  input. A device that accepts every write has received exactly these chunks afterwards,
  which is the byte stream of one write of the whole encoded payload. With no
  characteristic connected, \<open>sendData\<close> throws.
\<close>

theorem sendData_chunked_equiv:
  "\<exists>chunks.
      (\<forall>c \<in> set chunks. length c \<le> 20 \<and> c \<noteq> [])
      \<and> (\<forall>c \<in> set (butlast chunks). length c = 20)
      \<and> concat chunks = TextEncoder_encode data
      \<and> sendData writeValue (Some ch) data = write_each writeValue ch chunks
      \<and> sendData record_write (Some received) data = Inr (received @ chunks)
      \<and> concat (received @ chunks) = concat (received @ [TextEncoder_encode data])
      \<and> sendData writeValue None data = Inl NotConnected"
proof -
  let ?cs = "chunks_of chunkSize (TextEncoder_encode data)"
  have "sendData writeValue (Some ch) data = write_each writeValue ch ?cs"
    by (simp add: sendData_def sendData_loop_write_each)
  moreover have "sendData record_write (Some received) data = Inr (received @ ?cs)"
    by (simp add: sendData_def sendData_loop_write_each write_each_record)
  moreover have "\<forall>c \<in> set ?cs. length c \<le> 20 \<and> c \<noteq> []"
    using chunks_of_member [of _ chunkSize] by (auto simp: chunkSize_def)
  moreover have "\<forall>c \<in> set (butlast ?cs). length c = 20"
    using chunks_of_butlast_full [of _ chunkSize] by (auto simp: chunkSize_def)
  moreover have "concat ?cs = TextEncoder_encode data"
    by (simp add: concat_chunks_of chunkSize_def)
  moreover have "sendData writeValue None data = Inl NotConnected"
    by (simp add: sendData_def)
  ultimately show ?thesis
    by (intro exI [of _ ?cs]) simp
qed

lemma sample_receipt_sent:
  "sendData record_write (Some []) sample_receipt =
     Inr [[71, 79, 79, 68, 32, 87, 65, 89, 83, 32, 45, 32, 83, 105, 115, 116, 101, 109, 32, 75],
          [97, 115, 105, 114, 195, 169]]"
  by (simp add: sendData_def sample_receipt_def TextEncoder_encode_def str_def
      isHighSurrogate_def isLowSurrogate_def utf8_bytes_def sendData_loop.simps slice_def
      chunkSize_def record_write_def)

theorem sendData_chunked_equiv_witness:
  "sendData record_write (Some []) sample_receipt =
     Inr [[71, 79, 79, 68, 32, 87, 65, 89, 83, 32, 45, 32, 83, 105, 115, 116, 101, 109, 32, 75],
          [97, 115, 105, 114, 195, 169]]
   \<and> TextEncoder_encode sample_receipt =
       [71, 79, 79, 68, 32, 87, 65, 89, 83, 32, 45, 32, 83, 105, 115, 116, 101, 109, 32, 75,
        97, 115, 105, 114, 195, 169]"
proof -
  obtain chunks where
    c: "concat chunks = TextEncoder_encode sample_receipt"
    and s: "sendData record_write (Some []) sample_receipt = Inr ([] @ chunks)"
    using sendData_chunked_equiv [of sample_receipt record_write "[]" "[]"] by blast
  from s have "chunks =
     [[71, 79, 79, 68, 32, 87, 65, 89, 83, 32, 45, 32, 83, 105, 115, 116, 101, 109, 32, 75],
      [97, 115, 105, 114, 195, 169]]"
    by (simp add: sample_receipt_sent)
  with c show ?thesis
    by (simp add: sample_receipt_sent)
qed

subsection \<open>Cash received and change\<close>

lemma digit_not_space: "isDigit c \<Longrightarrow> \<not> isWhiteSpace c"
  by (auto simp: isDigit_def isWhiteSpace_def word_le_nat_alt)

lemma digit_not_sign: "isDigit c \<Longrightarrow> c \<noteq> 0x2D \<and> c \<noteq> 0x2B"
  by (auto simp: isDigit_def)

lemma parseFloat_digits:
  assumes "ds \<noteq> []" and "\<forall>c \<in> set ds. isDigit c"
  shows "parseFloat ds = Some (decimal_value ds)"
proof -
  obtain d rest where ds: "ds = d # rest"
    using assms(1) by (cases ds) auto
  have d: "isDigit d" using assms(2) ds by simp
  have "dropWhile isWhiteSpace ds = ds"
    using d ds digit_not_space by simp
  moreover have "takeWhile isDigit ds = ds"
    using assms(2) by (simp add: takeWhile_eq_all_conv)
  ultimately show ?thesis
    using ds digit_not_sign [OF d] assms(1)
    by (simp add: parseFloat_def Let_def)
qed

text \<open>
  C5. While the amounts are exact integers (the total, the amount typed or chosen, and
  their difference are of magnitude at most \<open>2^53\<close>): after
  \<open>handleCashReceivedChange(v)\<close> the stored \<open>cashReceived\<close> is the digits of \<open>v\<close> in
  order, and \<open>cashChange\<close> is the amount received minus \<open>grandTotal\<close> when the amount is
  at least \<open>grandTotal\<close>, and 0 otherwise, also when no digit remains. After
  \<open>setQuickCash(a)\<close>, \<open>cashChange\<close> is \<open>max(0, a - grandTotal)\<close>. It is never negative
  after either.
\<close>

theorem cashChange_after_input:
  assumes "exact_integer (grandTotal props)"
    and "exact_integer (decimal_value (filter isDigit v))"
    and "exact_integer (decimal_value (filter isDigit v) - grandTotal props)"
    and "exact_integer a"
    and "exact_integer (a - grandTotal props)"
  shows "\<exists>typed chosen.
      handleCashReceivedChange props v s = Exactly typed
    \<and> setQuickCash props a s = Exactly chosen
    \<and> cashReceived typed = filter isDigit v
    \<and> cashChange typed =
         (if filter isDigit v = [] then 0
          else if decimal_value (filter isDigit v) \<ge> grandTotal props
               then decimal_value (filter isDigit v) - grandTotal props
               else 0)
    \<and> cashReceived chosen = toString a
    \<and> cashChange chosen = max 0 (a - grandTotal props)
    \<and> 0 \<le> cashChange typed
    \<and> 0 \<le> cashChange chosen"
proof -
  let ?ds = "filter isDigit v"
  let ?typed = "s\<lparr>cashReceived := ?ds,
      cashChange := (if ?ds = [] then 0
          else if decimal_value ?ds \<ge> grandTotal props
               then decimal_value ?ds - grandTotal props
               else 0)\<rparr>"
  let ?chosen = "s\<lparr>cashReceived := toString a, cashChange := max 0 (a - grandTotal props)\<rparr>"
  have p: "?ds \<noteq> [] \<Longrightarrow> parseFloat ?ds = Some (decimal_value ?ds)"
    by (rule parseFloat_digits) simp_all
  have t: "handleCashReceivedChange props v s = Exactly ?typed"
    using p assms(1-3)
    by (cases "?ds = []") (simp_all add: handleCashReceivedChange_def Let_def)
  have c: "setQuickCash props a s = Exactly ?chosen"
    using assms(1,4,5) by (simp add: setQuickCash_def Let_def max_def)
  show ?thesis
    by (intro exI [of _ ?typed] exI [of _ ?chosen]) (simp add: t c)
qed

lemma decimal_50000: "decimal_value (str ''50000'') = 50000"
  by (simp add: decimal_value_def digit_value_def str_def)

lemma digits_Rp: "filter isDigit (str ''Rp 50.000'') = str ''50000''"
  by (simp add: isDigit_def str_def)

theorem cashChange_after_input_witness:
  "exact_integer (grandTotal sample_props)
   \<and> exact_integer (decimal_value (filter isDigit (str ''Rp 50.000'')))
   \<and> exact_integer (decimal_value (filter isDigit (str ''Rp 50.000'')) - grandTotal sample_props)
   \<and> exact_integer 20000
   \<and> exact_integer (20000 - grandTotal sample_props)
   \<and> (\<exists>typed chosen.
        handleCashReceivedChange sample_props (str ''Rp 50.000'') initial_PaymentState
          = Exactly typed
      \<and> setQuickCash sample_props 20000 initial_PaymentState = Exactly chosen
      \<and> cashReceived typed = str ''50000'' \<and> cashChange typed = 4000
      \<and> cashChange chosen = 0)"
proof -
  have g: "grandTotal sample_props = 46000"
    by (simp add: sample_props_def)
  have ne: "str ''50000'' \<noteq> []"
    by (simp add: str_def)
  have h1: "exact_integer (grandTotal sample_props)"
    by (simp add: g exact_integer_def)
  have h2: "exact_integer (decimal_value (filter isDigit (str ''Rp 50.000'')))"
    by (simp add: digits_Rp decimal_50000 exact_integer_def)
  have h3: "exact_integer
      (decimal_value (filter isDigit (str ''Rp 50.000'')) - grandTotal sample_props)"
    by (simp add: digits_Rp decimal_50000 g exact_integer_def)
  have h4: "exact_integer 20000"
    by (simp add: exact_integer_def)
  have h5: "exact_integer (20000 - grandTotal sample_props)"
    by (simp add: g exact_integer_def)
  from cashChange_after_input [OF h1 h2 h3 h4 h5, of initial_PaymentState]
  obtain typed chosen where
    "handleCashReceivedChange sample_props (str ''Rp 50.000'') initial_PaymentState
       = Exactly typed"
    "setQuickCash sample_props 20000 initial_PaymentState = Exactly chosen"
    "cashReceived typed = str ''50000''" "cashChange typed = 4000" "cashChange chosen = 0"
    by (auto simp: digits_Rp decimal_50000 g ne)
  with h1 h2 h3 h4 h5 show ?thesis
    by blast
qed

subsection \<open>Validation of the payment form\<close>

text \<open>
  C3. For a direct payment in cash, \<open>validatePayment\<close> returns a message exactly when
  the cash field is empty or the amount parsed from it is less than \<open>grandTotal\<close>; for
  \<open>qris\<close> and \<open>debit\<close> it returns \<open>null\<close>; for an open bill it returns a message exactly
  when the trimmed customer name is empty. \<open>isFormValid\<close> is true exactly when
  \<open>validatePayment\<close> returns \<open>null\<close>.
\<close>

theorem validatePayment_cases:
  "(transactionType s = Bayar_langsung \<and> paymentMethod s = Cash \<longrightarrow>
      (validatePayment props s \<noteq> None) =
        (cashReceived s = [] \<or> (\<exists>r. parseFloat (cashReceived s) = Some r \<and> r < grandTotal props)))
   \<and> (transactionType s = Bayar_langsung \<and> (paymentMethod s = Qris \<or> paymentMethod s = Debit) \<longrightarrow>
        validatePayment props s = None)
   \<and> (transactionType s = Open_bill \<longrightarrow>
        (validatePayment props s \<noteq> None) = (trim (customerName s) = []))
   \<and> isFormValid props s = (validatePayment props s = None)"
  by (cases "transactionType s"; cases "parseFloat (cashReceived s)")
     (auto simp: validatePayment_def isFormValid_def Let_def num_less_def)

lemma parse_40000: "parseFloat (str ''40000'') = Some 40000"
  by (simp add: parseFloat_def isDigit_def isWhiteSpace_def decimal_value_def
      digit_value_def str_def Let_def)

lemma trim_blank: "trim (str ''  '') = []"
  by (simp add: trim_def isWhiteSpace_def str_def)

theorem validatePayment_cases_witness:
  "validatePayment sample_props (initial_PaymentState\<lparr>cashReceived := str ''40000''\<rparr>) \<noteq> None
   \<and> \<not> isFormValid sample_props (initial_PaymentState\<lparr>cashReceived := str ''40000''\<rparr>)
   \<and> validatePayment sample_props (initial_PaymentState\<lparr>paymentMethod := Qris\<rparr>) = None
   \<and> isFormValid sample_props (initial_PaymentState\<lparr>paymentMethod := Qris\<rparr>)
   \<and> validatePayment sample_props
        (initial_PaymentState\<lparr>transactionType := Open_bill, customerName := str ''  ''\<rparr>) \<noteq> None"
proof -
  let ?short = "initial_PaymentState\<lparr>cashReceived := str ''40000''\<rparr>"
  let ?qris = "initial_PaymentState\<lparr>paymentMethod := Qris\<rparr>"
  let ?blank = "initial_PaymentState\<lparr>transactionType := Open_bill, customerName := str ''  ''\<rparr>"
  have "validatePayment sample_props ?short \<noteq> None \<and> \<not> isFormValid sample_props ?short"
    using validatePayment_cases [of ?short sample_props]
    by (simp add: initial_PaymentState_def parse_40000 sample_props_def)
  moreover have "validatePayment sample_props ?qris = None \<and> isFormValid sample_props ?qris"
    using validatePayment_cases [of ?qris sample_props]
    by (simp add: initial_PaymentState_def)
  moreover have "validatePayment sample_props ?blank \<noteq> None"
    using validatePayment_cases [of ?blank sample_props]
    by (simp add: initial_PaymentState_def trim_blank)
  ultimately show ?thesis by blast
qed

subsection \<open>The transaction written by the payment screen\<close>

lemma insert_branch:
  assumes "validatePayment props s = None"
    and "existingTransactionId props = None \<or> existingTransactionId props = Some []"
  shows "handleProcessPayment supabase props (s, db) = create_transaction supabase props s db"
  using assms by (auto simp: handleProcessPayment_def)

lemma update_branch:
  assumes "validatePayment props s = None"
    and "existingTransactionId props = Some k" and "k \<noteq> []"
  shows "handleProcessPayment supabase props (s, db) =
     request_done s (update_single supabase (updateData s) k db)"
  using assms by (simp add: handleProcessPayment_def)

lemma map_items_defined:
  "Nullish \<notin> set c \<Longrightarrow>
   map_items c = Inr (map (\<lambda>slot. case slot of Item x \<Rightarrow> Some (item_of x) | _ \<Rightarrow> None) c)"
proof (induction c)
  case Nil
  show ?case by simp
next
  case (Cons slot c)
  then show ?case by (cases slot) simp_all
qed

lemma table_insert_result:
  "\<exists>row. table_insert defaults x rows = (Inr row, rows @ [row])
     \<and> TransactionData.truncate row = TransactionData.truncate x"
  by (simp add: table_insert_def single_def Let_def TransactionData.truncate_def)

text \<open>
  C2. When the form is valid, no open bill is being paid and the cart holds no
  \<open>undefined\<close> (with one the screen cannot render), \<open>handleProcessPayment\<close>
  inserts one row, with \<open>subtotal = total = grandTotal\<close>. For an open bill the row has
  \<open>payment_status 'open_bill'\<close>, no payment method, no cash amounts, and the trimmed
  customer name. For a direct payment it has \<open>payment_status 'paid'\<close> and the selected
  method, one of \<open>cash\<close>, \<open>qris\<close>, \<open>debit\<close>; the cash amounts are those of the form
  when the method is \<open>cash\<close>, and \<open>null\<close> otherwise.
\<close>

theorem new_transaction_record:
  assumes "validatePayment props s = None"
    and "existingTransactionId props = None \<or> existingTransactionId props = Some []"
    and "Nullish \<notin> set (props_cart props)"
  shows "\<exists>row.
      snd (handleProcessPayment (table_client defaults) props (s, rows)) = rows @ [row]
    \<and> transactionData (fst (handleProcessPayment (table_client defaults) props (s, rows))) = Some row
    \<and> subtotal row = grandTotal props \<and> total' row = grandTotal props
    \<and> (transactionType s = Open_bill \<longrightarrow>
          payment_status row = str ''open_bill'' \<and> payment_method row = None
          \<and> cash_received row = None \<and> cash_change row = None
          \<and> customer_name row = Some (trim (customerName s)))
    \<and> (transactionType s = Bayar_langsung \<longrightarrow>
          payment_status row = str ''paid''
          \<and> payment_method row = Some (method_string (paymentMethod s))
          \<and> method_string (paymentMethod s) \<in> {str ''cash'', str ''qris'', str ''debit''}
          \<and> (paymentMethod s = Cash \<longrightarrow>
                cash_received row = parseFloat (cashReceived s)
                \<and> cash_change row = Some (cashChange s))
          \<and> (paymentMethod s \<noteq> Cash \<longrightarrow> cash_received row = None \<and> cash_change row = None))"
proof -
  obtain x where x: "new_transactionData props s = Inr x"
    and fx: "subtotal x = grandTotal props" "total' x = grandTotal props"
      "payment_status x =
         (if transactionType s = Open_bill then str ''open_bill'' else str ''paid'')"
      "payment_method x =
         (if transactionType s = Bayar_langsung then Some (method_string (paymentMethod s))
          else None)"
      "cash_received x =
         (if paymentMethod s = Cash \<and> transactionType s = Bayar_langsung
          then parseFloat (cashReceived s) else None)"
      "cash_change x =
         (if paymentMethod s = Cash \<and> transactionType s = Bayar_langsung
          then Some (cashChange s) else None)"
      "customer_name x =
         (if transactionType s = Open_bill then Some (trim (customerName s)) else None)"
    by (simp add: new_transactionData_def map_items_defined [OF assms(3)])
  obtain row where ins: "table_insert defaults x rows = (Inr row, rows @ [row])"
    and same: "TransactionData.truncate row = TransactionData.truncate x"
    using table_insert_result by blast
  have run: "handleProcessPayment (table_client defaults) props (s, rows) =
      (s\<lparr>transactionData := Some row, showReceipt := True, isProcessing := False\<rparr>, rows @ [row])"
    using ins x
    by (simp add: insert_branch [OF assms(1,2)] create_transaction_def request_done_def
        table_client_def)
  have f: "subtotal row = subtotal x" "total' row = total' x"
    "payment_status row = payment_status x" "payment_method row = payment_method x"
    "cash_received row = cash_received x" "cash_change row = cash_change x"
    "customer_name row = customer_name x"
    using same by (simp_all add: TransactionData.truncate_def)
  have m: "method_string (paymentMethod s) \<in> {str ''cash'', str ''qris'', str ''debit''}"
    by (cases "paymentMethod s") simp_all
  have ty: "transactionType s = Open_bill \<or> transactionType s = Bayar_langsung"
    by (cases "transactionType s") simp_all
  from m ty show ?thesis
    by (intro exI [of _ row]) (auto simp: run f fx)
qed

lemma paying_cash_eval:
  "paying_cash = initial_PaymentState\<lparr>cashReceived := str ''50000'', cashChange := 4000\<rparr>"
  by (simp add: paying_cash_def)

lemma parse_50000: "parseFloat (str ''50000'') = Some 50000"
  by (simp add: parseFloat_def isDigit_def isWhiteSpace_def decimal_value_def
      digit_value_def str_def Let_def)

lemma paying_cash_valid: "validatePayment sample_props paying_cash = None"
  by (simp add: paying_cash_eval validatePayment_def initial_PaymentState_def sample_props_def
      parseFloat_def isDigit_def isWhiteSpace_def decimal_value_def digit_value_def str_def
      num_less_def Let_def)

theorem new_transaction_record_witness:
  "validatePayment sample_props paying_cash = None
   \<and> existingTransactionId sample_props = None
   \<and> (\<exists>row. snd (handleProcessPayment (table_client sample_defaults) sample_props
                   (paying_cash, [sample_open_bill])) = [sample_open_bill, row]
        \<and> subtotal row = 46000 \<and> total' row = 46000
        \<and> payment_status row = str ''paid'' \<and> payment_method row = Some (str ''cash'')
        \<and> cash_received row = Some 50000 \<and> cash_change row = Some 4000)"
proof -
  have v: "validatePayment sample_props paying_cash = None"
    by (rule paying_cash_valid)
  have e: "existingTransactionId sample_props = None \<or> existingTransactionId sample_props = Some []"
    by (simp add: sample_props_def)
  have c: "Nullish \<notin> set (props_cart sample_props)"
    by (simp add: sample_props_def)
  have t: "transactionType paying_cash = Bayar_langsung" "paymentMethod paying_cash = Cash"
    "cashReceived paying_cash = str ''50000''" "cashChange paying_cash = 4000"
    by (simp_all add: paying_cash_eval initial_PaymentState_def)
  have p: "parseFloat (str ''50000'') = Some 50000"
    by (simp add: parseFloat_def isDigit_def isWhiteSpace_def decimal_value_def
        digit_value_def str_def Let_def)
  from new_transaction_record [OF v e c, of sample_defaults "[sample_open_bill]"]
  show ?thesis
    using v t p by (auto simp: sample_props_def)
qed

lemma update_branch_rows:
  assumes "validatePayment props s = None"
    and "existingTransactionId props = Some k" and "k \<noteq> []"
  shows "snd (handleProcessPayment (table_client defaults) props (s, rows)) =
     map (\<lambda>r. if row_id r = k then apply_update (updateData s) r else r) rows"
  by (simp add: update_branch [OF assms] request_done_def table_client_def table_update_def
      Let_def split: prod.splits sum.splits)

text \<open>
  C4. Paying the open bill \<open>existingTransactionId\<close> changes, in the rows with that key,
  only \<open>payment_status\<close> (to \<open>paid\<close>), \<open>payment_method\<close>, \<open>cash_received\<close> and
  \<open>cash_change\<close>: the items, subtotal, total, customer name, notes and transaction number
  of every row stay as they were, and the other rows do not change at all.
\<close>

theorem open_bill_payment_frame:
  assumes "validatePayment props s = None"
    and "existingTransactionId props = Some k" and "k \<noteq> []"
  shows "length (snd (handleProcessPayment (table_client defaults) props (s, rows))) = length rows
    \<and> (\<forall>i < length rows.
         (let old = rows ! i;
              new = snd (handleProcessPayment (table_client defaults) props (s, rows)) ! i
          in items new = items old \<and> subtotal new = subtotal old \<and> total' new = total' old
             \<and> customer_name new = customer_name old \<and> notes' new = notes' old
             \<and> transaction_number new = transaction_number old
             \<and> row_id new = row_id old
             \<and> (row_id old \<noteq> k \<longrightarrow> new = old)
             \<and> (row_id old = k \<longrightarrow>
                   new = old\<lparr>payment_status := str ''paid'',
                             payment_method := Some (method_string (paymentMethod s)),
                             cash_received :=
                               (if paymentMethod s = Cash then parseFloat (cashReceived s) else None),
                             cash_change :=
                               (if paymentMethod s = Cash then Some (cashChange s) else None)\<rparr>)))"
  unfolding update_branch_rows [OF assms]
  by (simp add: Let_def apply_update_def updateData_def)

lemma paying_open_bill_valid: "validatePayment open_bill_props paying_cash = None"
  by (simp add: paying_cash_eval validatePayment_def initial_PaymentState_def
      open_bill_props_def sample_props_def parse_50000 num_less_def Let_def str_not_Nil)

theorem open_bill_payment_frame_witness:
  "validatePayment open_bill_props paying_cash = None
   \<and> existingTransactionId open_bill_props = Some (str ''t1'') \<and> str ''t1'' \<noteq> []
   \<and> snd (handleProcessPayment (table_client sample_defaults) open_bill_props
            (paying_cash, [sample_open_bill, sample_paid]))
      = [sample_open_bill\<lparr>payment_status := str ''paid'', payment_method := Some (str ''cash''),
                          cash_received := Some 50000, cash_change := Some 4000\<rparr>,
         sample_paid]"
proof -
  let ?rows = "[sample_open_bill, sample_paid]"
  let ?rows' = "snd (handleProcessPayment (table_client sample_defaults) open_bill_props
            (paying_cash, ?rows))"
  have v: "validatePayment open_bill_props paying_cash = None"
    by (rule paying_open_bill_valid)
  have e: "existingTransactionId open_bill_props = Some (str ''t1'')"
    by (simp add: open_bill_props_def)
  have n: "str ''t1'' \<noteq> []"
    by (simp add: str_def)
  have ids: "row_id sample_open_bill = str ''t1''" "row_id sample_paid \<noteq> str ''t1''"
    by (simp_all add: sample_open_bill_def sample_paid_def str_def)
  have st: "paymentMethod paying_cash = Cash" "cashReceived paying_cash = str ''50000''"
    "cashChange paying_cash = 4000"
    by (simp_all add: paying_cash_eval initial_PaymentState_def)
  note fr = open_bill_payment_frame [OF v e n, of sample_defaults ?rows]
  from fr have len: "length ?rows' = 2" by simp
  from fr have r0: "?rows' ! 0 = sample_open_bill\<lparr>payment_status := str ''paid'',
        payment_method := Some (str ''cash''), cash_received := Some 50000,
        cash_change := Some 4000\<rparr>"
    using ids st parse_50000 by (simp add: Let_def)
  from fr have r1: "?rows' ! 1 = sample_paid"
    using ids by (simp add: Let_def)
  have "?rows' = [?rows' ! 0, ?rows' ! 1]"
    using len by (cases ?rows'; cases "tl ?rows'") auto
  then show ?thesis
    using v e n r0 r1 by simp
qed

subsection \<open>Cart totals\<close>

lemma reduce_totalPrice:
  "reduce (\<lambda>sum item. case item of None \<Rightarrow> Inl TypeError
                                   | Some i \<Rightarrow> Inr (sum + totalPrice i)) z c
   = (if Nullish \<in> set c then Inl TypeError
      else Inr (z + sum_list (map totalPrice (present c))))"
proof (induction c arbitrary: z)
  case Nil
  show ?case by simp
next
  case (Cons slot c)
  then show ?case by (cases slot) simp_all
qed

lemma Cashier_grandTotal_sum:
  "Cashier_grandTotal c =
     (if Nullish \<in> set c then Inl TypeError else Inr (sum_list (map totalPrice (present c))))"
  by (simp add: Cashier_grandTotal_def reduce_totalPrice)

lemma foldl_plus_sum_list:
  "foldl (\<lambda>sum x. sum + g x) (z :: int) xs = z + sum_list (map g xs)"
  by (induction xs arbitrary: z) simp_all

lemma addOnsTotal_sum:
  "addOnsTotal s = sum_list (map price (filter selected (modalAddOns s)))"
  by (simp add: addOnsTotal_def selectedAddOns_def foldl_plus_sum_list comp_def)

text \<open>
  The item that \<open>addToCart\<close> appends, and the item that \<open>updateCartItem\<close> writes at the
  edited index, is the product of the dialog with its selected add-ons and its quantity,
  and its \<open>totalPrice\<close> is the product's price plus the prices of the selected add-ons,
  times the quantity. A render has a \<open>grandTotal\<close> exactly when the cart holds no
  \<open>undefined\<close>, and then it is the sum of \<open>totalPrice\<close> over the items of the cart.
\<close>

lemma build_item_fields:
  "product (build_item p s) = p \<and> quantity (build_item p s) = modalQuantity s
   \<and> addOns (build_item p s)
       = map (\<lambda>a. \<lparr>name = name a, price = price a\<rparr>) (filter selected (modalAddOns s))
   \<and> totalPrice (build_item p s)
       = (price p + sum_list (map price (filter selected (modalAddOns s)))) * modalQuantity s"
  by (simp add: build_item_def Let_def addOnsTotal_sum selectedAddOns_def)

lemma addToCart_appends:
  "selectedProduct s = Some p \<Longrightarrow> editingCartIndex s = None \<Longrightarrow>
     cart (addToCart s) = spread (cart s) @ [Item (build_item p s)]"
  by (simp add: addToCart_def closeProductModal_def Let_def)

lemma updateCartItem_writes:
  "selectedProduct s = Some p \<Longrightarrow> editingCartIndex s = Some i \<Longrightarrow>
     addToCart s = updateCartItem s
     \<and> cart (updateCartItem s) = array_set (spread (cart s)) i (build_item p s)"
  by (simp add: addToCart_def updateCartItem_def closeProductModal_def Let_def)

subsection \<open>An edit at an index the cart no longer has\<close>

lemma edit_pressed_eval:
  "startEditCartItem 2 cart_dialog_open = (Inr third_item, edit_pressed)"
  "edit_pressed = cart_dialog_open\<lparr>editingCartIndex := Some 2,
      selectedProduct := Some sample_product, modalVariant := str ''Ice'', modalQuantity := 3\<rparr>"
  by (simp_all add: edit_pressed_def startEditCartItem_def cart_dialog_open_def third_item_def
      sample_item_def str_def)

lemma two_removed_eval:
  "two_removed = edit_pressed\<lparr>cart := [Item sample_item]\<rparr>"
  by (simp add: two_removed_def removeFromCart_def edit_pressed_eval(2) cart_dialog_open_def
      Let_def)

lemma edit_dialog_open_eval:
  "edit_dialog_open =
     sample_cashier\<lparr>cart := [Item sample_item], modalQuantity := 3, editingCartIndex := Some 2\<rparr>"
  by (simp add: edit_dialog_open_def startEditCartItem_fetched_def
      startEditCartItem_timeout_200_def startEditCartItem_timeout_250_def
      startEditCartItem_timeout_260_def two_removed_eval edit_pressed_eval(2)
      cart_dialog_open_def sample_cashier_def third_item_def sample_item_def sample_product_def
      sample_addons_def truthy_def str_def)

lemma built_third_item: "build_item sample_product edit_dialog_open = third_item"
  by (simp add: edit_dialog_open_eval build_item_def addOnsTotal_def selectedAddOns_def
      sample_cashier_def sample_product_def third_item_def sample_item_def truthy_def Let_def)

lemma edit_saved_eval:
  "edit_saved =
     sample_cashier\<lparr>cart := [Item sample_item, Hole, Item third_item], modalQuantity := 3,
       isProductModalOpen := False, productModalAnimating := False, selectedProduct := None\<rparr>"
proof -
  have "addToCart edit_dialog_open = updateCartItem edit_dialog_open
     \<and> cart (updateCartItem edit_dialog_open)
         = array_set (spread (cart edit_dialog_open)) 2
             (build_item sample_product edit_dialog_open)"
    by (rule updateCartItem_writes) (simp_all add: edit_dialog_open_eval sample_cashier_def)
  then have c: "cart (addToCart edit_dialog_open) = [Item sample_item, Hole, Item third_item]"
    by (simp add: built_third_item) (simp add: edit_dialog_open_eval array_set_def spread_def)
  have "addToCart edit_dialog_open =
      edit_dialog_open\<lparr>cart := cart (addToCart edit_dialog_open), editingCartIndex := None,
        productModalAnimating := False\<rparr>"
    by (simp add: addToCart_def updateCartItem_def closeProductModal_def Let_def
        edit_dialog_open_eval sample_cashier_def)
  then show ?thesis
    unfolding edit_saved_def c
    by (simp add: closeProductModal_timeout_def edit_dialog_open_eval sample_cashier_def)
qed

lemma next_added_cart:
  "cart next_added =
     [Item sample_item, Nullish, Item third_item,
      Item (sample_item\<lparr>quantity := 1, addOns := [], totalPrice := 18000\<rparr>)]"
  by (simp add: next_added_def addToCart_def openProductModal_def openProductModal_timeout_def
      closeProductModal_def closeProductModal_timeout_def edit_saved_eval sample_cashier_def
      build_item_def addOnsTotal_def selectedAddOns_def sample_addons_def sample_product_def
      sample_item_def spread_def truthy_def Let_def)

text \<open>
  C9. The code breaks the claim. In the session above the edit of the third item is saved
  at index 2 of a cart that has one item left: \<open>updateCartItem\<close> writes past the end of
  the cart and leaves index 1 empty. The render after it still has a \<open>grandTotal\<close>, the
  sum over the two items. When the next product is added, \<open>[...cart, newItem]\<close> reads the
  empty index as \<open>undefined\<close>, and every render from then on throws at
  \<open>item.totalPrice\<close>: the cart has three items and no \<open>grandTotal\<close>, and \<open>goToPayment\<close>
  cannot be reached.
\<close>

theorem stale_edit_index_breaks_grandTotal:
  "startEditCartItem 2 cart_dialog_open = (Inr third_item, edit_pressed)
   \<and> cart edit_dialog_open = [Item sample_item]
   \<and> selectedProduct edit_dialog_open = Some sample_product
   \<and> editingCartIndex edit_dialog_open = Some 2
   \<and> cart edit_saved = [Item sample_item, Hole, Item third_item]
   \<and> Cashier_grandTotal (cart edit_saved) = Inr 115000
   \<and> cart next_added =
        [Item sample_item, Nullish, Item third_item,
         Item (sample_item\<lparr>quantity := 1, addOns := [], totalPrice := 18000\<rparr>)]
   \<and> sum_list (map totalPrice (present (cart next_added))) = 133000
   \<and> Cashier_grandTotal (cart next_added) = Inl TypeError
   \<and> goToPayment next_added = Inl TypeError"
proof -
  have a: "cart edit_dialog_open = [Item sample_item]"
    "selectedProduct edit_dialog_open = Some sample_product"
    "editingCartIndex edit_dialog_open = Some 2"
    by (simp_all add: edit_dialog_open_eval sample_cashier_def)
  have b: "cart edit_saved = [Item sample_item, Hole, Item third_item]"
    by (simp add: edit_saved_eval)
  have c: "Cashier_grandTotal (cart edit_saved) = Inr 115000"
    by (simp add: b Cashier_grandTotal_def sample_item_def third_item_def)
  have d: "sum_list (map totalPrice (present (cart next_added))) = 133000"
    by (simp add: next_added_cart sample_item_def third_item_def)
  have e: "Cashier_grandTotal (cart next_added) = Inl TypeError"
    by (simp add: next_added_cart Cashier_grandTotal_def)
  have f: "goToPayment next_added = Inl TypeError"
    by (simp add: goToPayment_def e)
  from edit_pressed_eval(1) a b c next_added_cart d e f show ?thesis
    by simp
qed

subsection \<open>Reports\<close>

lemma paid_not_open_bill: "str ''paid'' \<noteq> str ''open_bill''"
  by (simp add: str_def)

lemma foldl_total_sum:
  "foldl (\<lambda>sum t. sum + total' t) (z :: int) ts = z + sum_list (map total' ts)"
  by (induction ts arbitrary: z) simp_all

lemma paid_and_not_open_bill:
  "(s \<noteq> str ''open_bill'' \<and> s = str ''paid'') = (s = str ''paid'')"
  "(s \<noteq> str ''open_bill'' \<and> s = str ''paid'' \<and> P) = (s = str ''paid'' \<and> P)"
  using paid_not_open_bill by auto

text \<open>
  C7. \<open>calculateStats\<close> computes \<open>totalSales\<close> as the sum of \<open>total\<close> over the
  transactions with \<open>payment_status 'paid'\<close>, \<open>totalTransactions\<close> as their number,
  \<open>averageTransaction\<close> as the first divided by the second (the division of JavaScript
  numbers) when the number is positive and 0 otherwise, and \<open>openBills\<close> as the number of transactions with \<open>payment_status
  'open_bill'\<close>. \<open>todaySales\<close> is the sum over the paid transactions dated today or
  later. Removing the open bills changes neither \<open>totalSales\<close> nor \<open>todaySales\<close>.
\<close>

theorem calculateStats_overview:
  "totalSales (calculateStats Date_parse today data) =
      sum_list (map total' (filter (\<lambda>t. payment_status t = str ''paid'') data))
   \<and> totalTransactions (calculateStats Date_parse today data) =
      length (filter (\<lambda>t. payment_status t = str ''paid'') data)
   \<and> averageTransaction (calculateStats Date_parse today data) =
      (if 0 < totalTransactions (calculateStats Date_parse today data)
       then Quotient (totalSales (calculateStats Date_parse today data))
              (totalTransactions (calculateStats Date_parse today data))
       else Number 0)
   \<and> openBills (calculateStats Date_parse today data) =
      length (filter (\<lambda>t. payment_status t = str ''open_bill'') data)
   \<and> todaySales (calculateStats Date_parse today data) =
      sum_list (map total'
        (filter (\<lambda>t. payment_status t = str ''paid''
                    \<and> (\<exists>d. Date_parse (transaction_date t) = Some d \<and> today \<le> d)) data))
   \<and> totalSales (calculateStats Date_parse today
        (filter (\<lambda>t. payment_status t \<noteq> str ''open_bill'') data))
      = totalSales (calculateStats Date_parse today data)
   \<and> todaySales (calculateStats Date_parse today
        (filter (\<lambda>t. payment_status t \<noteq> str ''open_bill'') data))
      = todaySales (calculateStats Date_parse today data)"
proof -
  have ge: "date_ge (Date_parse (transaction_date t)) today
      = (\<exists>d. Date_parse (transaction_date t) = Some d \<and> today \<le> d)" for t :: Transaction
    by (simp add: date_ge_def split: option.splits)
  have today: "todaySales (calculateStats Date_parse today data) =
      sum_list (map total'
        (filter (\<lambda>t. payment_status t = str ''paid''
                    \<and> (\<exists>d. Date_parse (transaction_date t) = Some d \<and> today \<le> d)) data))"
    by (simp add: calculateStats_def Let_def foldl_total_sum ge)
  have sales: "totalSales (calculateStats Date_parse today d) =
      sum_list (map total' (filter (\<lambda>t. payment_status t = str ''paid'') d))" for d
    by (simp add: calculateStats_def Let_def foldl_total_sum)
  have todays: "todaySales (calculateStats Date_parse today d) =
      sum_list (map total'
        (filter (\<lambda>t. payment_status t = str ''paid''
                    \<and> date_ge (Date_parse (transaction_date t)) today) d))" for d
    by (simp add: calculateStats_def Let_def foldl_total_sum)
  have count: "totalTransactions (calculateStats Date_parse today data) =
      length (filter (\<lambda>t. payment_status t = str ''paid'') data)"
    by (simp add: calculateStats_def Let_def)
  have avg: "averageTransaction (calculateStats Date_parse today data) =
      (if 0 < totalTransactions (calculateStats Date_parse today data)
       then Quotient (totalSales (calculateStats Date_parse today data))
              (totalTransactions (calculateStats Date_parse today data))
       else Number 0)"
    by (simp add: calculateStats_def Let_def)
  have opens: "openBills (calculateStats Date_parse today data) =
      length (filter (\<lambda>t. payment_status t = str ''open_bill'') data)"
    by (simp add: calculateStats_def Let_def)
  have frame1: "totalSales (calculateStats Date_parse today
        (filter (\<lambda>t. payment_status t \<noteq> str ''open_bill'') data))
      = totalSales (calculateStats Date_parse today data)"
    unfolding sales by (simp add: paid_and_not_open_bill)
  have frame2: "todaySales (calculateStats Date_parse today
        (filter (\<lambda>t. payment_status t \<noteq> str ''open_bill'') data))
      = todaySales (calculateStats Date_parse today data)"
    unfolding todays by (simp add: paid_and_not_open_bill)
  from sales [of data] count avg opens today frame1 frame2 show ?thesis
    by blast
qed

lemma sample_status:
  "payment_status sample_open_bill = str ''open_bill''"
  "payment_status sample_paid = str ''paid''"
  "total' sample_paid = 92000"
  "str ''open_bill'' \<noteq> str ''paid''"
  "str ''paid'' \<noteq> str ''open_bill''"
  by (simp_all add: sample_open_bill_def sample_paid_def str_def)

lemma sample_dates:
  "transaction_date sample_paid = str ''2025-01-02''"
  "sample_date (str ''2025-01-02'') = Some 2"
  "sample_date (str ''2025-01-01'') = Some 1"
  by (simp_all add: sample_paid_def sample_date_def str_def)

theorem calculateStats_overview_witness:
  "totalSales (calculateStats sample_date 2 sample_sales) = 184001
   \<and> totalTransactions (calculateStats sample_date 2 sample_sales) = 3
   \<and> averageTransaction (calculateStats sample_date 2 sample_sales) = Quotient 184001 3
   \<and> openBills (calculateStats sample_date 2 sample_sales) = 1
   \<and> todaySales (calculateStats sample_date 2 sample_sales) = 138000"
  using calculateStats_overview [of sample_date 2 sample_sales]
  by (simp add: sample_sales_def sample_status sample_dates)

lemma map_of_map_set: "map_of (map_set k v m) = (map_of m)(k \<mapsto> v)"
  by (induction m) (auto simp: fun_eq_iff)

lemma map_fst_map_set:
  "map fst (map_set k v m) = (if k \<in> fst ` set m then map fst m else map fst m @ [k])"
  by (induction m) (fastforce simp: image_iff)+

lemma keys_map_set: "fst ` set (map_set k v m) = insert k (fst ` set m)"
proof -
  have "set (map fst (map_set k v m)) = insert k (set (map fst m))"
    unfolding map_fst_map_set by auto
  then show ?thesis by simp
qed

lemma distinct_map_set: "distinct (map fst m) \<Longrightarrow> distinct (map fst (map_set k v m))"
  unfolding map_fst_map_set by auto

lemma names_of_rows:
  "map best_product_name
     (map (\<lambda>(name, data). \<lparr>best_product_name = name, total_quantity = fst data,
                              total_revenue = snd data\<rparr>) m) = map fst m"
  by (induction m) auto

lemma map_of_add_item:
  "map_of (add_item i m) =
     (map_of m)(product_name i \<mapsto>
        (fst (entry m (product_name i)) + quantity i, snd (entry m (product_name i)) + totalPrice i))"
  by (simp add: add_item_def Let_def map_of_map_set entry_def)

lemma keys_add_item: "fst ` set (add_item i m) = insert (product_name i) (fst ` set m)"
  by (simp add: add_item_def Let_def keys_map_set)

lemma distinct_add_item: "distinct (map fst m) \<Longrightarrow> distinct (map fst (add_item i m))"
  by (simp add: add_item_def Let_def distinct_map_set)

lemma distinct_add_all:
  "distinct (map fst m) \<Longrightarrow> distinct (map fst (foldl (\<lambda>m i. add_item i m) m its))"
  by (induction its arbitrary: m) (simp_all add: distinct_add_item)

lemma keys_add_all:
  "fst ` set (foldl (\<lambda>m i. add_item i m) m its) = fst ` set m \<union> product_name ` set its"
  by (induction its arbitrary: m) (auto simp: keys_add_item)

lemma entry_add_all:
  "entry (foldl (\<lambda>m i. add_item i m) m its) n =
     (fst (entry m n) + quantity_sold n its, snd (entry m n) + revenue_of n its)"
proof (induction its arbitrary: m)
  case Nil
  show ?case by (simp add: quantity_sold_def revenue_of_def)
next
  case (Cons i its)
  have e: "entry (add_item i m) n =
      (if product_name i = n then (fst (entry m n) + quantity i, snd (entry m n) + totalPrice i)
       else entry m n)"
    by (simp add: entry_def map_of_add_item)
  show ?case
    by (simp add: Cons.IH e quantity_sold_def revenue_of_def)
qed

lemma entry_Nil: "entry [] n = (0, 0)"
  by (simp add: entry_def)

lemma entry_member:
  assumes "distinct (map fst m)" and "(n, q, r) \<in> set m"
  shows "entry m n = (q, r)"
  using assms by (simp add: entry_def)

lemma add_items_non_null:
  "None \<notin> set xs \<Longrightarrow> add_items xs m = Inr (foldl (\<lambda>m i. add_item i m) m (non_null xs))"
proof (induction xs arbitrary: m)
  case Nil
  show ?case by simp
next
  case (Cons x xs)
  then show ?case by (cases x) simp_all
qed

lemma add_transactions_non_null:
  "\<forall>t \<in> set ts. None \<notin> set (items t) \<Longrightarrow>
   add_transactions ts m =
     Inr (foldl (\<lambda>m i. add_item i m) m (concat (map (\<lambda>t. non_null (items t)) ts)))"
  by (induction ts arbitrary: m) (simp_all add: add_items_non_null)

lemma sorted_desc_take:
  "sorted_wrt (\<lambda>a b. total_quantity a \<ge> total_quantity b)
     (take k (sort_key (\<lambda>b. - total_quantity b) xs))"
proof -
  have "sorted (map (\<lambda>b. - total_quantity b) (sort_key (\<lambda>b. - total_quantity b) xs))"
    by (rule sorted_sort_key)
  then have "sorted_wrt (\<lambda>a b. total_quantity a \<ge> total_quantity b)
      (sort_key (\<lambda>b. - total_quantity b) xs)"
    by (simp add: sorted_map)
  then show ?thesis
    by (rule sorted_wrt_take)
qed

lemma distinct_map_sort_take:
  assumes "distinct (map g xs)"
  shows "distinct (map g (take k (sort_key f xs)))"
proof -
  from assms have "distinct xs" and "inj_on g (set xs)"
    by (simp_all add: distinct_map)
  then have "distinct (map g (sort_key f xs))"
    by (simp add: distinct_map)
  then have "distinct (take k (map g (sort_key f xs)))"
    by (rule distinct_take)
  then show ?thesis
    by (simp add: take_map)
qed

text \<open>
  On transactions whose paid ones have no \<open>null\<close> item, \<open>calculateBestSellers\<close>
  returns at most 5 products (all of them when there are fewer), in non-increasing order
  of \<open>total_quantity\<close>, each product once; every product returned occurs in an item of a
  paid transaction, its \<open>total_quantity\<close> is the sum of \<open>quantity\<close> and its
  \<open>total_revenue\<close> the sum of \<open>totalPrice\<close> over the items of the paid transactions
  with its name. Removing the open bills does not change the result.
\<close>

lemma calculateBestSellers_present_items:
  assumes "\<forall>t \<in> set data. payment_status t = str ''paid'' \<longrightarrow> None \<notin> set (items t)"
  shows "\<exists>bs. calculateBestSellers data = Inr bs
     \<and> length bs = min 5 (card (product_name ` set (paid_items data)))
     \<and> sorted_wrt (\<lambda>a b. total_quantity a \<ge> total_quantity b) bs
     \<and> distinct (map best_product_name bs)
     \<and> (\<forall>b \<in> set bs.
           best_product_name b \<in> product_name ` set (paid_items data)
           \<and> total_quantity b = quantity_sold (best_product_name b) (paid_items data)
           \<and> total_revenue b = revenue_of (best_product_name b) (paid_items data))
     \<and> calculateBestSellers (filter (\<lambda>t. payment_status t \<noteq> str ''open_bill'') data)
         = calculateBestSellers data"
proof -
  let ?paid = "filter (\<lambda>t. payment_status t = str ''paid'') data"
  let ?m = "foldl (\<lambda>m i. add_item i m) [] (paid_items data)"
  let ?mk = "\<lambda>(name, data). \<lparr>best_product_name = name, total_quantity = fst data,
      total_revenue = snd data\<rparr>"
  let ?all = "map ?mk ?m"
  let ?bs = "take 5 (sort_key (\<lambda>b. - total_quantity b) ?all)"
  have wf: "\<forall>t \<in> set ?paid. None \<notin> set (items t)"
    using assms by simp
  have run: "add_transactions ?paid [] = Inr ?m"
    using add_transactions_non_null [OF wf] by (simp add: paid_items_def)
  have res: "calculateBestSellers data = Inr ?bs"
    by (simp add: calculateBestSellers_def Let_def run)
  have dm: "distinct (map fst ?m)"
    by (rule distinct_add_all) simp
  have keys: "fst ` set ?m = product_name ` set (paid_items data)"
    by (simp add: keys_add_all)
  have dn: "distinct (map best_product_name ?all)"
    unfolding names_of_rows using dm .
  have len: "length ?bs = min 5 (card (product_name ` set (paid_items data)))"
  proof -
    have "length ?m = card (fst ` set ?m)"
      using distinct_card [OF dm] by simp
    then show ?thesis
      by (simp add: keys min.commute)
  qed
  have dbs: "distinct (map best_product_name ?bs)"
    using dn by (rule distinct_map_sort_take)
  have each: "\<forall>b \<in> set ?bs.
           best_product_name b \<in> product_name ` set (paid_items data)
           \<and> total_quantity b = quantity_sold (best_product_name b) (paid_items data)
           \<and> total_revenue b = revenue_of (best_product_name b) (paid_items data)"
  proof
    fix b assume "b \<in> set ?bs"
    then have "b \<in> set ?all"
      using set_take_subset [of 5 "sort_key (\<lambda>b. - total_quantity b) ?all"] by auto
    then obtain n q r where mem: "(n, q, r) \<in> set ?m"
      and b: "b = \<lparr>best_product_name = n, total_quantity = q, total_revenue = r\<rparr>"
      by auto
    have "entry ?m n = (q, r)"
      using entry_member [OF dm mem] .
    moreover have "entry ?m n = (quantity_sold n (paid_items data), revenue_of n (paid_items data))"
      by (simp add: entry_add_all entry_Nil)
    ultimately have "q = quantity_sold n (paid_items data)" "r = revenue_of n (paid_items data)"
      by simp_all
    moreover have "n \<in> product_name ` set (paid_items data)"
      using mem keys by force
    ultimately show "best_product_name b \<in> product_name ` set (paid_items data)
           \<and> total_quantity b = quantity_sold (best_product_name b) (paid_items data)
           \<and> total_revenue b = revenue_of (best_product_name b) (paid_items data)"
      using b by simp
  qed
  have frame: "calculateBestSellers (filter (\<lambda>t. payment_status t \<noteq> str ''open_bill'') data)
         = calculateBestSellers data"
    by (simp add: calculateBestSellers_def Let_def paid_and_not_open_bill)
  from res len sorted_desc_take [of 5 ?all] dbs each frame show ?thesis
    by blast
qed

subsection \<open>A paid transaction with an empty place among its items\<close>

lemma holed_payment_valid:
  "validatePayment (Payment_props c u pd) paying_qris = None"
  by (simp add: validatePayment_def paying_qris_def initial_PaymentState_def)

lemma holed_payment:
  "goToPayment edit_saved =
     Inr (Some (handleGoToPayment [Item sample_item, Hole, Item third_item] 115000))"
  by (simp add: goToPayment_def edit_saved_eval Cashier_grandTotal_def sample_item_def
      third_item_def)

lemma holed_rows:
  "snd (handleProcessPayment (table_client sample_defaults)
          (Payment_props (str ''ani'') (str ''u1'')
             (handleGoToPayment [Item sample_item, Hole, Item third_item] 115000))
          (paying_qris, [sample_paid]))
   = [sample_paid,
      \<lparr>items = [Some (item_of sample_item), None, Some (item_of third_item)],
       subtotal = 115000, total' = 115000,
       payment_status = str ''paid'', payment_method = Some (str ''qris''),
       cash_received = None, cash_change = None,
       customer_name = None, notes' = None,
       cashier_name = str ''ani'', created_by = str ''u1'',
       row_id = str ''t3'', transaction_number = str ''TRX-0003'',
       transaction_date = str ''2025-01-02'', row_created_at = str ''2025-01-02''\<rparr>]"
  by (simp add: handleProcessPayment_def holed_payment_valid)
     (simp add: Payment_props_def handleGoToPayment_def create_transaction_def
      new_transactionData_def request_done_def table_client_def table_insert_def single_def
      sample_defaults_def paying_qris_def initial_PaymentState_def trim_def Let_def)

text \<open>
  C8. The code breaks the claim. The cart that the edit at index 2 has left with an empty
  index 1 is paid: \<open>goToPayment\<close> opens the payment screen, \<open>cart.map\<close> keeps the empty
  place, and the row stored with status \<open>paid\<close> has \<open>null\<close> as its second item. On
  the table that holds this row \<open>calculateBestSellers\<close> throws at \<open>item.product_name\<close>
  and returns no list, where the claim has the product with the quantities 2, 2, 2 and 3
  and the revenues of the four items of the two paid transactions added up.
\<close>

theorem stale_edit_index_breaks_calculateBestSellers:
  "goToPayment edit_saved =
     Inr (Some (handleGoToPayment [Item sample_item, Hole, Item third_item] 115000))
   \<and> map payment_status
        (snd (handleProcessPayment (table_client sample_defaults)
                (Payment_props (str ''ani'') (str ''u1'')
                   (handleGoToPayment [Item sample_item, Hole, Item third_item] 115000))
                (paying_qris, [sample_paid])))
       = [str ''paid'', str ''paid'']
   \<and> map items
        (snd (handleProcessPayment (table_client sample_defaults)
                (Payment_props (str ''ani'') (str ''u1'')
                   (handleGoToPayment [Item sample_item, Hole, Item third_item] 115000))
                (paying_qris, [sample_paid])))
       = [[Some (item_of sample_item), Some (item_of sample_item)],
          [Some (item_of sample_item), None, Some (item_of third_item)]]
   \<and> calculateBestSellers
        (snd (handleProcessPayment (table_client sample_defaults)
                (Payment_props (str ''ani'') (str ''u1'')
                   (handleGoToPayment [Item sample_item, Hole, Item third_item] 115000))
                (paying_qris, [sample_paid])))
       = Inl TypeError
   \<and> quantity_sold (str ''Kopi Susu'')
        (paid_items (snd (handleProcessPayment (table_client sample_defaults)
                (Payment_props (str ''ani'') (str ''u1'')
                   (handleGoToPayment [Item sample_item, Hole, Item third_item] 115000))
                (paying_qris, [sample_paid])))) = 9
   \<and> revenue_of (str ''Kopi Susu'')
        (paid_items (snd (handleProcessPayment (table_client sample_defaults)
                (Payment_props (str ''ani'') (str ''u1'')
                   (handleGoToPayment [Item sample_item, Hole, Item third_item] 115000))
                (paying_qris, [sample_paid])))) = 207000"
proof -
  have st: "payment_status sample_paid = str ''paid''"
    "items sample_paid = [Some (item_of sample_item), Some (item_of sample_item)]"
    by (simp_all add: sample_paid_def)
  have f: "product_name (item_of sample_item) = str ''Kopi Susu''"
    "product_name (item_of third_item) = str ''Kopi Susu''"
    "quantity (item_of sample_item) = 2" "quantity (item_of third_item) = 3"
    "totalPrice (item_of sample_item) = 46000" "totalPrice (item_of third_item) = 69000"
    by (simp_all add: item_of_def third_item_def sample_item_def sample_product_def)
  have a: "map payment_status
        (snd (handleProcessPayment (table_client sample_defaults)
                (Payment_props (str ''ani'') (str ''u1'')
                   (handleGoToPayment [Item sample_item, Hole, Item third_item] 115000))
                (paying_qris, [sample_paid])))
       = [str ''paid'', str ''paid'']"
    unfolding holed_rows by (simp add: st)
  have b: "map items
        (snd (handleProcessPayment (table_client sample_defaults)
                (Payment_props (str ''ani'') (str ''u1'')
                   (handleGoToPayment [Item sample_item, Hole, Item third_item] 115000))
                (paying_qris, [sample_paid])))
       = [[Some (item_of sample_item), Some (item_of sample_item)],
          [Some (item_of sample_item), None, Some (item_of third_item)]]"
    unfolding holed_rows by (simp add: st)
  have c: "calculateBestSellers
        (snd (handleProcessPayment (table_client sample_defaults)
                (Payment_props (str ''ani'') (str ''u1'')
                   (handleGoToPayment [Item sample_item, Hole, Item third_item] 115000))
                (paying_qris, [sample_paid])))
       = Inl TypeError"
    unfolding holed_rows by (simp add: calculateBestSellers_def st)
  have d: "quantity_sold (str ''Kopi Susu'')
        (paid_items (snd (handleProcessPayment (table_client sample_defaults)
                (Payment_props (str ''ani'') (str ''u1'')
                   (handleGoToPayment [Item sample_item, Hole, Item third_item] 115000))
                (paying_qris, [sample_paid])))) = 9"
    unfolding holed_rows by (simp add: quantity_sold_def paid_items_def st f)
  have e: "revenue_of (str ''Kopi Susu'')
        (paid_items (snd (handleProcessPayment (table_client sample_defaults)
                (Payment_props (str ''ani'') (str ''u1'')
                   (handleGoToPayment [Item sample_item, Hole, Item third_item] 115000))
                (paying_qris, [sample_paid])))) = 207000"
    unfolding holed_rows by (simp add: revenue_of_def paid_items_def st f)
  from holed_payment a b c d e show ?thesis
    by simp
qed

subsection \<open>State kept in the browser\<close>







end
